theory Spec2Isabelle
  imports Complex_Main "HOL-Library.Word" "HOL-Library.Sublist" "HOL-Library.Multiset"
begin

section \<open>JavaScript strings\<close>

text \<open>
  A JavaScript string is a sequence of UTF-16 code units. The regular expressions of the
  sources carry no \<open>u\<close> flag, so character classes, \<open>trim\<close> and \<open>substring\<close> all
  work on single code units; a string is therefore a list of 16-bit words.
  \<open>js\<close> writes an ASCII literal of the sources as such a list.
\<close>

type_synonym js_char = "16 word"
type_synonym js_string = "js_char list"

definition js :: "string \<Rightarrow> js_string" where
  "js s = map (\<lambda>c. of_nat (of_char c)) s"

text \<open>The character class \<open>[<>:"/\\|?*]\<close> of both sanitizers.\<close>

definition is_forbidden :: "js_char \<Rightarrow> bool" where
  "is_forbidden c = (unat c = 60 \<or> unat c = 62 \<or> unat c = 58 \<or> unat c = 34 \<or> unat c = 47
     \<or> unat c = 92 \<or> unat c = 124 \<or> unat c = 63 \<or> unat c = 42)"

text \<open>
  The class \<open>\s\<close> (and the characters \<open>trim\<close> strips): the WhiteSpace and
  LineTerminator code points of ECMAScript, which are TAB, LF, VT, FF, CR, SP, U+00A0,
  U+1680, U+2000 to U+200A, U+2028, U+2029, U+202F, U+205F, U+3000 and U+FEFF.
\<close>

definition is_space :: "js_char \<Rightarrow> bool" where
  "is_space c = ((9 \<le> unat c \<and> unat c \<le> 13) \<or> unat c = 32 \<or> unat c = 160 \<or> unat c = 5760
     \<or> (8192 \<le> unat c \<and> unat c \<le> 8202) \<or> unat c = 8232 \<or> unat c = 8233
     \<or> unat c = 8239 \<or> unat c = 8287 \<or> unat c = 12288 \<or> unat c = 65279)"

text \<open>The class \<open>\w\<close>, that is \<open>[A-Za-z0-9_]\<close>.\<close>

definition is_word :: "js_char \<Rightarrow> bool" where
  "is_word c = ((48 \<le> unat c \<and> unat c \<le> 57) \<or> (65 \<le> unat c \<and> unat c \<le> 90) \<or> unat c = 95
     \<or> (97 \<le> unat c \<and> unat c \<le> 122))"

text \<open>
  The characters kept by the negated class of \<open>sanitizeFolderName\<close>: a word
  character, the hyphen, the underscore, or a code unit of one of the three Korean ranges
  U+AC00 to U+D7AF, U+1100 to U+11FF and U+3130 to U+318F.
\<close>

definition folder_allowed :: "js_char \<Rightarrow> bool" where
  "folder_allowed c = (is_word c \<or> unat c = 45 \<or> unat c = 95
     \<or> (44032 \<le> unat c \<and> unat c \<le> 55215)
     \<or> (4352 \<le> unat c \<and> unat c \<le> 4607)
     \<or> (12592 \<le> unat c \<and> unat c \<le> 12687))"

subsection \<open>The string methods the sources call\<close>

text \<open>
  \<open>s.replace(/[class]/g, rep)\<close>: every code unit of the class is replaced by \<open>rep\<close>.
  None of the replacement strings of the sources contains a \<open>$\<close>, so the replacement
  is inserted literally.
\<close>

fun replace_class :: "(js_char \<Rightarrow> bool) \<Rightarrow> js_string \<Rightarrow> js_string \<Rightarrow> js_string" where
  "replace_class P rep [] = []"
| "replace_class P rep (c # cs) =
     (if P c then rep @ replace_class P rep cs else c # replace_class P rep cs)"

text \<open>
  \<open>s.replace(/[class]+/g, rep)\<close>: the match at a code unit of the class is greedy and
  takes the whole run; scanning goes on after the run.
\<close>

function replace_runs :: "(js_char \<Rightarrow> bool) \<Rightarrow> js_string \<Rightarrow> js_string \<Rightarrow> js_string" where
  "replace_runs P rep [] = []"
| "replace_runs P rep (c # cs) =
     (if P c then rep @ replace_runs P rep (dropWhile P cs) else c # replace_runs P rep cs)"
  by pat_completeness auto
termination
  by (relation "measure (\<lambda>(P, rep, s). length s)")
     (auto simp: le_imp_less_Suc length_dropWhile_le)

text \<open>
  \<open>s.substring(a, b)\<close> for non-negative integers: both indices are clamped to the
  length and swapped when \<open>a > b\<close>.
\<close>

definition substring :: "js_string \<Rightarrow> nat \<Rightarrow> nat \<Rightarrow> js_string" where
  "substring s a b =
     (let a' = min a (length s); b' = min b (length s)
      in take (max a' b' - min a' b') (drop (min a' b') s))"


text \<open>\<open>s.includes(t)\<close> and \<open>s.startsWith(t)\<close>.\<close>

fun js_includes :: "js_string \<Rightarrow> js_string \<Rightarrow> bool" where
  "js_includes [] t = (t = [])"
| "js_includes (c # cs) t = (prefix t (c # cs) \<or> js_includes cs t)"

definition startsWith :: "js_string \<Rightarrow> js_string \<Rightarrow> bool" where
  "startsWith s t = prefix t s"

section \<open>NameSanitizer\<close>

text \<open>
  \<open>minimalSanitizeFilename\<close> and \<open>sanitizeFolderName\<close> are textually the same in
  \<open>src/index.js\<close> and \<open>src/bin/index.js\<close>.
\<close>

definition minimalSanitizeFilename :: "js_string \<Rightarrow> js_string" where
  "minimalSanitizeFilename name = replace_class is_forbidden (js ''_'') name"

definition sanitizeFolderName :: "js_string \<Rightarrow> js_string" where
  "sanitizeFolderName name =
     substring
       (replace_class (\<lambda>c. \<not> folder_allowed c) (js '''')
         (replace_runs is_space (js ''_'')
           (replace_class is_forbidden (js ''_'') name)))
       0 100"

subsection \<open>The four steps as the specification words them\<close>

text \<open>Step (a): each forbidden character becomes an underscore.\<close>

definition step_a :: "js_string \<Rightarrow> js_string" where
  "step_a s = map (\<lambda>c. if is_forbidden c then 95 else c) s"

text \<open>
  Step (b): each run of white space becomes a single underscore: a white-space character
  yields the underscore when it opens a run and nothing when it continues one. The flag
  says whether the previous character was white space.
\<close>

fun collapse_runs :: "bool \<Rightarrow> js_string \<Rightarrow> js_string" where
  "collapse_runs prev [] = []"
| "collapse_runs prev (c # cs) =
     (if is_space c then (if prev then [] else [95]) @ collapse_runs True cs
      else c # collapse_runs False cs)"

definition step_b :: "js_string \<Rightarrow> js_string" where
  "step_b s = collapse_runs False s"

text \<open>Step (c): every character outside the allowed set is deleted.\<close>

definition step_c :: "js_string \<Rightarrow> js_string" where
  "step_c s = filter folder_allowed s"

text \<open>Step (d): the result is cut to 100 code units.\<close>

definition step_d :: "js_string \<Rightarrow> js_string" where
  "step_d s = take 100 s"

section \<open>FormatCatalog\<close>

text \<open>
  A format descriptor of the downloader's metadata, with the fields the sources read. A
  JSON number is a rational here (every finite double is one); \<open>None\<close> is a field that
  is \<open>null\<close> or missing, both of which the sources treat alike.
\<close>

record format_desc =
  format_id :: js_string
  ext :: js_string
  vcodec :: "js_string option"
  acodec :: "js_string option"
  height :: "rat option"
  abr :: "rat option"
  filesize :: "rat option"

text \<open>A number used as a condition: \<open>null\<close>, \<open>undefined\<close> and \<open>0\<close> are falsy.\<close>

definition truthy_num :: "rat option \<Rightarrow> bool" where
  "truthy_num v = (case v of None \<Rightarrow> False | Some x \<Rightarrow> x \<noteq> 0)"

text \<open>\<open>v || 0\<close> for a number \<open>v\<close>, and \<open>null\<close> read as a number.\<close>

definition or_zero :: "rat option \<Rightarrow> rat" where
  "or_zero v = (case v of None \<Rightarrow> 0 | Some x \<Rightarrow> x)"

text \<open>
  \<open>Array.prototype.sort(cmp)\<close> is stable (ECMAScript 2019): with a consistent
  comparator the result is the one of a stable insertion sort, where an element goes in
  front of the first element it does not compare greater than.
\<close>

fun insert_by :: "('a \<Rightarrow> 'a \<Rightarrow> rat) \<Rightarrow> 'a \<Rightarrow> 'a list \<Rightarrow> 'a list" where
  "insert_by cmp x [] = [x]"
| "insert_by cmp x (y # ys) = (if cmp x y \<le> 0 then x # y # ys else y # insert_by cmp x ys)"

definition sort_by :: "('a \<Rightarrow> 'a \<Rightarrow> rat) \<Rightarrow> 'a list \<Rightarrow> 'a list" where
  "sort_by cmp xs = foldr (insert_by cmp) xs []"

text \<open>
  The comparators \<open>(a, b) => b.height - a.height\<close>, applied only to descriptors that
  passed a filter on \<open>f.height\<close>, and \<open>(a, b) => (b.abr || 0) - (a.abr || 0)\<close>.
\<close>

definition by_height :: "format_desc \<Rightarrow> format_desc \<Rightarrow> rat" where
  "by_height a b = or_zero (height b) - or_zero (height a)"

definition by_abr :: "format_desc \<Rightarrow> format_desc \<Rightarrow> rat" where
  "by_abr a b = or_zero (abr b) - or_zero (abr a)"

text \<open>The three filters, as \<open>organizeFormats\<close> and \<open>selectBestFormat\<close> write them.\<close>

definition is_videoAudio :: "format_desc \<Rightarrow> bool" where
  "is_videoAudio f =
     (vcodec f \<noteq> Some (js ''none'') \<and> acodec f \<noteq> Some (js ''none'') \<and> truthy_num (height f))"

definition is_videoOnly :: "format_desc \<Rightarrow> bool" where
  "is_videoOnly f =
     (vcodec f \<noteq> Some (js ''none'') \<and> acodec f = Some (js ''none'') \<and> truthy_num (height f))"

definition is_audioOnly :: "format_desc \<Rightarrow> bool" where
  "is_audioOnly f = (vcodec f = Some (js ''none'') \<and> acodec f \<noteq> Some (js ''none''))"

record organized =
  videoAudio :: "format_desc list"
  videoOnly :: "format_desc list"
  audioOnly :: "format_desc list"

text \<open>\<open>organizeFormats\<close> is textually the same in both entry points.\<close>

definition organizeFormats :: "format_desc list \<Rightarrow> organized" where
  "organizeFormats formats =
     \<lparr> videoAudio = sort_by by_height (filter is_videoAudio formats),
       videoOnly = sort_by by_height (filter is_videoOnly formats),
       audioOnly = sort_by by_abr (filter is_audioOnly formats) \<rparr>"

text \<open>
  \<open>selectBestFormat\<close>, the same in both entry points; \<open>None\<close> is its \<open>null\<close>. The
  element \<open>[0]\<close> of a sorted non-empty array always exists.
\<close>

definition first_elem :: "'a list \<Rightarrow> 'a option" where
  "first_elem xs = (case xs of [] \<Rightarrow> None | x # _ \<Rightarrow> Some x)"

definition selectBestFormat :: "format_desc list \<Rightarrow> format_desc option" where
  "selectBestFormat formats =
     (let videoFormats = filter is_videoAudio formats in
      if length videoFormats > 0 then first_elem (sort_by by_height videoFormats)
      else
        let videoOnlyFormats = filter is_videoOnly formats in
        if length videoOnlyFormats > 0 then first_elem (sort_by by_height videoOnlyFormats)
        else None)"

text \<open>
  Sample descriptors: the list of the specification's example (a combined 1080 entry, a
  video-only 2160 entry, an audio-only entry), and a longer one with two combined entries
  of equal height.
\<close>

definition sample_format ::
  "string \<Rightarrow> string \<Rightarrow> string \<Rightarrow> rat option \<Rightarrow> rat option \<Rightarrow> format_desc" where
  "sample_format i v a h r =
     \<lparr> format_id = js i, ext = js ''mp4'', vcodec = Some (js v), acodec = Some (js a),
       height = h, abr = r, filesize = None \<rparr>"

definition spec_formats :: "format_desc list" where
  "spec_formats =
     [sample_format ''1'' ''vp9'' ''aac'' (Some 1080) None,
      sample_format ''2'' ''vp9'' ''none'' (Some 2160) None,
      sample_format ''3'' ''none'' ''mp3'' None None]"

definition tie_formats :: "format_desc list" where
  "tie_formats =
     [sample_format ''a'' ''avc1'' ''mp4a'' (Some 360) None,
      sample_format ''b'' ''none'' ''opus'' None (Some 50),
      sample_format ''c'' ''avc1'' ''mp4a'' (Some 720) None,
      sample_format ''d'' ''none'' ''mp4a'' None None,
      sample_format ''e'' ''vp9'' ''mp4a'' (Some 720) None,
      sample_format ''f'' ''vp9'' ''none'' (Some 2160) None,
      sample_format ''g'' ''none'' ''opus'' None (Some 160)]"

section \<open>DateTimeContext and PlaceholderSubstitution\<close>

text \<open>
  The reading of the clock: what the getters of \<open>new Date()\<close> return. The sources read
  the ambient clock inside \<open>getCurrentDateTime\<close>; here the reading is an argument.
\<close>

record js_date =
  getFullYear :: int
  getMonth :: nat
  getDate :: nat
  getHours :: nat
  getMinutes :: nat
  getSeconds :: nat

text \<open>
  \<open>n.toString()\<close> for an integer \<open>n\<close>: its decimal digits, after a minus sign when it
  is negative (JavaScript prints integers this way below \<open>10^21\<close>).
\<close>

function digits :: "nat \<Rightarrow> js_string" where
  "digits n = (if n < 10 then [of_nat (48 + n)] else digits (n div 10) @ [of_nat (48 + n mod 10)])"
  by pat_completeness auto
termination
  by (relation "measure id") auto

declare digits.simps [simp del]

definition number_to_string :: "int \<Rightarrow> js_string" where
  "number_to_string i = (if i < 0 then 45 # digits (nat (- i)) else digits (nat i))"

text \<open>\<open>s.slice(-k)\<close>, the last \<open>k\<close> code units, and \<open>s.padStart(n, c)\<close> for one filler \<open>c\<close>.\<close>

definition slice_last :: "js_string \<Rightarrow> nat \<Rightarrow> js_string" where
  "slice_last s k = drop (length s - k) s"

definition padStart :: "js_string \<Rightarrow> nat \<Rightarrow> js_char \<Rightarrow> js_string" where
  "padStart s n c = replicate (n - length s) c @ s"

text \<open>
  The object \<open>getCurrentDateTime\<close> returns. Its keys \<open>y\<close>, \<open>m\<close>, \<open>d\<close>, \<open>h\<close>, \<open>min\<close> and
  the others carry the prefix \<open>dt_\<close> here.
\<close>

record date_time =
  dt_fullTime :: js_string
  dt_date :: js_string
  dt_year :: js_string
  dt_y :: js_string
  dt_month :: js_string
  dt_m :: js_string
  dt_day :: js_string
  dt_d :: js_string
  dt_time :: js_string
  dt_hour :: js_string
  dt_h :: js_string
  dt_minute :: js_string
  dt_min :: js_string
  dt_second :: js_string
  dt_sec :: js_string

definition getCurrentDateTime :: "js_date \<Rightarrow> date_time" where
  "getCurrentDateTime now =
     (let year = slice_last (number_to_string (getFullYear now)) 2;
          month = padStart (number_to_string (int (getMonth now) + 1)) 2 48;
          day = padStart (number_to_string (int (getDate now))) 2 48;
          hours = padStart (number_to_string (int (getHours now))) 2 48;
          minutes = padStart (number_to_string (int (getMinutes now))) 2 48;
          seconds = padStart (number_to_string (int (getSeconds now))) 2 48
      in \<lparr> dt_fullTime = year @ month @ day @ js ''_'' @ hours @ minutes @ seconds,
           dt_date = year @ month @ day,
           dt_year = year,
           dt_y = year,
           dt_month = month,
           dt_m = month,
           dt_day = day,
           dt_d = day,
           dt_time = hours @ minutes @ seconds,
           dt_hour = hours,
           dt_h = hours,
           dt_minute = minutes,
           dt_min = minutes,
           dt_second = seconds,
           dt_sec = seconds \<rparr>)"

text \<open>
  \<open>s.replace(/pat/g, rep)\<close> for a pattern that matches one literal string, as
  \<open>/{date}/g\<close> does (a brace that opens no quantifier stands for itself): matches are
  taken from left to right and do not overlap. An empty pattern matches before every code
  unit and at the end. The replacement is inserted literally; the replacements of
  \<open>replacePlaceholders\<close> are made of digits, \<open>-\<close> and \<open>_\<close> and hold no \<open>$\<close>.
\<close>

function replace_lit :: "js_string \<Rightarrow> js_string \<Rightarrow> js_string \<Rightarrow> js_string" where
  "replace_lit pat rep s =
     (if pat = [] then rep @ concat (map (\<lambda>c. c # rep) s)
      else if s = [] then []
      else if prefix pat s then rep @ replace_lit pat rep (drop (length pat) s)
      else hd s # replace_lit pat rep (tl s))"
  by pat_completeness auto
termination
  by (relation "measure (\<lambda>(pat, rep, s). length s)") auto

declare replace_lit.simps [simp del]

text \<open>\<open>replacePlaceholders\<close> is textually the same in both entry points.\<close>

definition replacePlaceholders :: "js_date \<Rightarrow> js_string \<Rightarrow> js_string" where
  "replacePlaceholders now folderName =
     (let dateTime = getCurrentDateTime now;
          s1 = replace_lit (js ''{fullTime}'') (dt_fullTime dateTime) folderName;
          s2 = replace_lit (js ''{date}'') (dt_date dateTime) s1;
          s3 = replace_lit (js ''{year}'') (dt_year dateTime) s2;
          s4 = replace_lit (js ''{y}'') (dt_y dateTime) s3;
          s5 = replace_lit (js ''{month}'') (dt_month dateTime) s4;
          s6 = replace_lit (js ''{m}'') (dt_m dateTime) s5;
          s7 = replace_lit (js ''{day}'') (dt_day dateTime) s6;
          s8 = replace_lit (js ''{d}'') (dt_d dateTime) s7;
          s9 = replace_lit (js ''{time}'') (dt_time dateTime) s8;
          s10 = replace_lit (js ''{hour}'') (dt_hour dateTime) s9;
          s11 = replace_lit (js ''{h}'') (dt_h dateTime) s10;
          s12 = replace_lit (js ''{minute}'') (dt_minute dateTime) s11;
          s13 = replace_lit (js ''{min}'') (dt_min dateTime) s12;
          s14 = replace_lit (js ''{second}'') (dt_second dateTime) s13
      in replace_lit (js ''{sec}'') (dt_sec dateTime) s14)"

subsection \<open>Substitution as the specification words it\<close>

text \<open>
  The recognized tokens with the fields that replace them, and the substitution read as
  one pass over the template: where a recognized token starts, its field is written and
  the token skipped; any other code unit is copied.
\<close>

definition placeholder_table :: "date_time \<Rightarrow> (js_string \<times> js_string) list" where
  "placeholder_table dt =
     [(js ''{fullTime}'', dt_fullTime dt), (js ''{date}'', dt_date dt),
      (js ''{year}'', dt_year dt), (js ''{y}'', dt_y dt),
      (js ''{month}'', dt_month dt), (js ''{m}'', dt_m dt),
      (js ''{day}'', dt_day dt), (js ''{d}'', dt_d dt),
      (js ''{time}'', dt_time dt),
      (js ''{hour}'', dt_hour dt), (js ''{h}'', dt_h dt),
      (js ''{minute}'', dt_minute dt), (js ''{min}'', dt_min dt),
      (js ''{second}'', dt_second dt), (js ''{sec}'', dt_sec dt)]"

definition token_at :: "(js_string \<times> js_string) list \<Rightarrow> js_string \<Rightarrow> (js_string \<times> js_string) option" where
  "token_at tbl s = find (\<lambda>(t, v). t \<noteq> [] \<and> prefix t s) tbl"

function substitute :: "(js_string \<times> js_string) list \<Rightarrow> js_string \<Rightarrow> js_string" where
  "substitute tbl s =
     (if s = [] then []
      else case token_at tbl s of
        Some (t, v) \<Rightarrow> v @ substitute tbl (drop (length t) s)
      | None \<Rightarrow> hd s # substitute tbl (tl s))"
  by pat_completeness auto
termination
  by (relation "measure (\<lambda>(tbl, s). length s)")
     (auto simp: token_at_def find_Some_iff)

declare substitute.simps [simp del]

subsection \<open>The shape of tokens and fields\<close>

text \<open>
  What the proof of the substitution needs from the table: every token is an opening
  brace followed by letters and closing braces only, no token is a proper prefix of
  another, and every field is a non-empty string of digits, hyphens and underscores.
\<close>

definition body_char :: "js_char \<Rightarrow> bool" where
  "body_char c = ((65 \<le> unat c \<and> unat c \<le> 90) \<or> (97 \<le> unat c \<and> unat c \<le> 122) \<or> unat c = 125)"

definition value_char :: "js_char \<Rightarrow> bool" where
  "value_char c = ((48 \<le> unat c \<and> unat c \<le> 57) \<or> unat c = 45 \<or> unat c = 95)"

definition entry_ok :: "js_string \<times> js_string \<Rightarrow> bool" where
  "entry_ok e = (case e of (t, v) \<Rightarrow>
     t \<noteq> [] \<and> hd t = 123 \<and> list_all body_char (tl t) \<and> v \<noteq> [] \<and> list_all value_char v)"

definition prefix_free :: "(js_string \<times> js_string) list \<Rightarrow> bool" where
  "prefix_free tbl = list_all (\<lambda>e. list_all (\<lambda>e'. prefix (fst e) (fst e') \<longrightarrow> fst e' = fst e) tbl) tbl"

definition table_ok :: "(js_string \<times> js_string) list \<Rightarrow> bool" where
  "table_ok tbl = (list_all entry_ok tbl \<and> prefix_free tbl)"

text \<open>The replacements of \<open>replacePlaceholders\<close>, one after the other, as a fold.\<close>

definition replace_each :: "(js_string \<times> js_string) list \<Rightarrow> js_string \<Rightarrow> js_string" where
  "replace_each tbl s = foldl (\<lambda>acc e. replace_lit (fst e) (snd e) acc) s tbl"

text \<open>A clock reading for examples: 15 March 2023, 14:30:22.\<close>

definition sample_now :: js_date where
  "sample_now = \<lparr> getFullYear = 2023, getMonth = 2, getDate = 15,
                   getHours = 14, getMinutes = 30, getSeconds = 22 \<rparr>"

section \<open>Options, requests and the outside world\<close>

text \<open>
  The options object is duck-typed in the sources; the record holds every key that one of
  the three programs reads, each optional. The keys \<open>'parent-folder'\<close> and
  \<open>'folder-name'\<close> of entry point B are \<open>parent_folder\<close> and \<open>folder_name\<close>, and
  the key \<open>audioOnly\<close> is \<open>audio_only\<close>.
  \<open>quality\<close> holds what \<open>parseInt\<close> returned, \<open>None\<close> standing for a missing key.
\<close>

text \<open>
  The values \<open>parseInt\<close> can return: \<open>NaN\<close>, an integer-valued number (given by its
  exact value) or an infinity (for a very long string of digits).
\<close>

datatype js_number = NaN | Num int | Pos_infinity | Neg_infinity

record options =
  folderName :: "js_string option"
  parentFolder :: "js_string option"
  parent_folder :: "js_string option"
  folder_name :: "js_string option"
  outputDir :: "js_string option"
  filename :: "js_string option"
  audio_only :: bool
  quality :: "js_number option"
  auto :: bool
  description :: "bool option"
  json :: "bool option"

definition no_options :: options where
  "no_options = \<lparr> folderName = None, parentFolder = None, parent_folder = None,
     folder_name = None, outputDir = None, filename = None, audio_only = False,
     quality = None, auto = False, description = None, json = None \<rparr>"

text \<open>
  A string or a number used as a condition: the empty string, \<open>0\<close>, \<open>NaN\<close> and a missing
  key are falsy; every other number, the infinities included, is truthy.
\<close>

definition truthy_str :: "js_string option \<Rightarrow> bool" where
  "truthy_str v = (case v of None \<Rightarrow> False | Some s \<Rightarrow> s \<noteq> [])"

definition truthy_number :: "js_number option \<Rightarrow> bool" where
  "truthy_number v =
     (case v of None \<Rightarrow> False | Some NaN \<Rightarrow> False | Some (Num n) \<Rightarrow> n \<noteq> 0
      | Some Pos_infinity \<Rightarrow> True | Some Neg_infinity \<Rightarrow> True)"

text \<open>The read of a key known to be truthy.\<close>

definition str_value :: "js_string option \<Rightarrow> js_string" where
  "str_value v = (case v of None \<Rightarrow> [] | Some s \<Rightarrow> s)"

text \<open>
  The options object handed to the external downloader; \<open>None\<close> is a key that is not
  set. Its key \<open>output\<close> is \<open>output_template\<close> here.
\<close>

record download_options =
  noPlaylist :: "bool option"
  format :: "js_string option"
  mergeOutputFormat :: "js_string option"
  writeThumbnail :: "bool option"
  writeDescription :: "bool option"
  writeInfoJson :: "bool option"
  output_template :: "js_string option"
  extractAudio :: "bool option"
  audioFormat :: "js_string option"
  audioQuality :: "js_string option"

definition no_download_options :: download_options where
  "no_download_options = \<lparr> noPlaylist = None, format = None, mergeOutputFormat = None,
     writeThumbnail = None, writeDescription = None, writeInfoJson = None, output_template = None,
     extractAudio = None, audioFormat = None, audioQuality = None \<rparr>"

text \<open>The metadata of a video, with the two fields the models read.\<close>

record video_info =
  title :: js_string
  formats :: "format_desc list"

text \<open>
  What a run does to the outside, in order. The fixed texts written with
  \<open>console.error\<close> are constructors of \<open>message\<close>; \<open>Fatal\<close> is the text of the
  \<open>catch\<close> of \<open>main\<close>, which carries the message of the error, and \<open>Batch_failed\<close>
  the text of the \<open>catch\<close> at the call of the batch driver's \<open>main\<close>. Informational
  \<open>console.log\<close> lines other than the usage text are left out of the trace.
\<close>

datatype message =
    Url_required
  | Url_invalid
  | Downloader_missing
  | Url_or_id_required
  | Url_or_id_invalid
  | Fatal js_string
  | File_not_found js_string
  | Line_exit "int option" js_string
  | Line_spawn_error js_string
  | Line_failed js_string
  | Batch_failed js_string

datatype event =
    Print_usage
  | Print_error message
  | Print_tally nat nat nat
  | Call_version
  | Call_dump_json js_string
  | Call_download js_string download_options
  | Call_exists js_string
  | Call_mkdir js_string
  | Call_prompt "js_string list"
  | Call_spawn js_string

text \<open>How a run of a program ends: \<open>main\<close> returns (exit status 0), \<open>process.exit(n)\<close>,
  or an exception leaves \<open>main\<close> outside its \<open>try\<close>.\<close>

datatype ending = Returned | Exited nat | Uncaught

text \<open>
  The collaborators: the \<open>path\<close> module, the clock, the downloader, the file system,
  the prompt, \<open>parseInt\<close>, the printing of numbers beyond the safe integers, the shell and
  the reader of the input file. An answer may depend on everything the run has done so
  far, so each takes the trace up to the call. An error is its \<open>message\<close> string.
  Every call is taken to answer: a downloader, prompt or child that never ends would leave
  the run waiting for it, which the models do not describe.

  A call of \<open>spawn\<close> either throws at once (as it does for a command holding a NUL
  character), or returns a child, which emits \<open>close\<close> with its exit code (\<open>null\<close> when a
  signal killed it), or \<open>error\<close>, or \<open>error\<close> and then \<open>close\<close>.

  The reader of the input file delivers lines and may then fail (at once when the path is
  a directory); \<open>read_lines\<close> gives the lines delivered and the error, if any.
\<close>

datatype spawn_result =
    Closed "int option"
  | Errored js_string
  | Errored_closed js_string "int option"
  | Throws js_string

record world =
  path_join :: "js_string list \<Rightarrow> js_string"
  path_dirname :: "js_string \<Rightarrow> js_string"
  clock :: "event list \<Rightarrow> js_date"
  probe_version :: "event list \<Rightarrow> bool"
  fetch_json :: "event list \<Rightarrow> js_string \<Rightarrow> js_string + video_info"
  run_download :: "event list \<Rightarrow> js_string \<Rightarrow> download_options \<Rightarrow> js_string option"
  exists_sync :: "event list \<Rightarrow> js_string \<Rightarrow> bool"
  mkdir_sync :: "event list \<Rightarrow> js_string \<Rightarrow> js_string option"
  ask_prompt :: "event list \<Rightarrow> js_string list \<Rightarrow> js_string + js_string"
  parse_int :: "js_string option \<Rightarrow> js_number"
  big_number_text :: "int \<Rightarrow> js_string"
  run_spawn :: "event list \<Rightarrow> js_string \<Rightarrow> spawn_result"
  read_lines :: "js_string \<Rightarrow> js_string list \<times> js_string option"

text \<open>
  A number in a template literal, \<open>`${n}`\<close>: a safe integer (below \<open>2^53\<close> in absolute
  value) prints as its decimal digits; beyond, JavaScript prints the shortest digits that
  read back as the same double and changes to exponent form from \<open>10^21\<close>, which is left
  to the world.
\<close>

definition number_text :: "world \<Rightarrow> js_number \<Rightarrow> js_string" where
  "number_text w x =
     (case x of
        NaN \<Rightarrow> js ''NaN''
      | Pos_infinity \<Rightarrow> js ''Infinity''
      | Neg_infinity \<Rightarrow> js ''-Infinity''
      | Num n \<Rightarrow> if \<bar>n\<bar> \<le> 9007199254740991 then number_to_string n
                 else big_number_text w n)"

text \<open>\<open>if (!fs.existsSync(dir)) fs.mkdirSync(dir, { recursive: true })\<close>.\<close>

definition ensure_dir :: "world \<Rightarrow> event list \<Rightarrow> js_string \<Rightarrow> event list \<times> (js_string + unit)" where
  "ensure_dir w tr dir =
     (let tr1 = tr @ [Call_exists dir] in
      if exists_sync w tr dir then (tr1, Inr ())
      else case mkdir_sync w tr1 dir of
             None \<Rightarrow> (tr1 @ [Call_mkdir dir], Inr ())
           | Some e \<Rightarrow> (tr1 @ [Call_mkdir dir], Inl e))"

text \<open>
  \<open>await logger(youtubedl(url, options), label)\<close>: one call of the downloader; the
  progress logger hands on the outcome of the promise.
\<close>

definition call_download ::
  "world \<Rightarrow> event list \<Rightarrow> js_string \<Rightarrow> download_options \<Rightarrow> event list \<times> (js_string + unit)" where
  "call_download w tr url opts =
     (tr @ [Call_download url opts],
      case run_download w tr url opts of None \<Rightarrow> Inr () | Some e \<Rightarrow> Inl e)"

text \<open>
  \<open>s.replace(pat, rep)\<close> for strings \<open>pat\<close> and \<open>rep\<close>: the first occurrence is
  replaced, and in \<open>rep\<close> the patterns \<open>$$\<close>, \<open>$&\<close>, \<open>$`\<close> and \<open>$'\<close> are expanded.
\<close>

fun split_first :: "js_string \<Rightarrow> js_string \<Rightarrow> (js_string \<times> js_string) option" where
  "split_first pat [] = (if pat = [] then Some ([], []) else None)"
| "split_first pat (c # cs) =
     (if prefix pat (c # cs) then Some ([], drop (length pat) (c # cs))
      else map_option (\<lambda>(b, a). (c # b, a)) (split_first pat cs))"

fun expand_dollars :: "js_string \<Rightarrow> js_string \<Rightarrow> js_string \<Rightarrow> js_string \<Rightarrow> js_string" where
  "expand_dollars matched before after (c # d # rest) =
     (if c = 36 \<and> d = 36 then 36 # expand_dollars matched before after rest
      else if c = 36 \<and> d = 38 then matched @ expand_dollars matched before after rest
      else if c = 36 \<and> d = 96 then before @ expand_dollars matched before after rest
      else if c = 36 \<and> d = 39 then after @ expand_dollars matched before after rest
      else c # expand_dollars matched before after (d # rest))"
| "expand_dollars matched before after rest = rest"

definition replace_first :: "js_string \<Rightarrow> js_string \<Rightarrow> js_string \<Rightarrow> js_string" where
  "replace_first pat rep s =
     (case split_first pat s of
        None \<Rightarrow> s
      | Some (b, a) \<Rightarrow> b @ expand_dollars pat b a rep @ a)"

text \<open>The message of \<open>new Error(`... : ${error.message}`)\<close> in \<open>downloadVideo\<close> and in
  \<open>getVideoInfo\<close>; the prefixes are Korean for "download failed: " and "cannot fetch the
  video information: ".\<close>

definition download_failed :: "js_string \<Rightarrow> js_string" where
  "download_failed e = [45796, 50868, 47196, 46300, 32, 49892, 54056, 58, 32] @ e"

definition info_failed :: "js_string \<Rightarrow> js_string" where
  "info_failed e = [46041, 50689, 49345, 32, 51221, 48372, 47484, 32, 44032, 51256, 50732, 32,
     49688, 32, 50630, 49845, 45768, 45796, 58, 32] @ e"

definition checkYoutubeDl :: "world \<Rightarrow> event list \<Rightarrow> event list \<times> bool" where
  "checkYoutubeDl w tr = (tr @ [Call_version], probe_version w tr)"

definition getVideoInfo :: "world \<Rightarrow> event list \<Rightarrow> js_string \<Rightarrow> event list \<times> (js_string + video_info)" where
  "getVideoInfo w tr url =
     (tr @ [Call_dump_json url],
      case fetch_json w tr url of Inl e \<Rightarrow> Inl (info_failed e) | Inr info \<Rightarrow> Inr info)"

text \<open>
  \<open>selectFormat\<close>: the prompt is asked with the selectable values, which are the format
  identifiers of the first 10, 10 and 5 entries of the three categories and \<open>auto\<close>.
  The labels and the disabled separator lines of the list are not modelled.
\<close>

definition selectFormat :: "world \<Rightarrow> event list \<Rightarrow> format_desc list \<Rightarrow> event list \<times> (js_string + js_string)" where
  "selectFormat w tr fmts =
     (let organized = organizeFormats fmts;
          choices = map format_id (take 10 (videoAudio organized))
                    @ map format_id (take 10 (videoOnly organized))
                    @ map format_id (take 5 (audioOnly organized))
                    @ [js ''auto'']
      in (tr @ [Call_prompt choices], ask_prompt w tr choices))"

section \<open>DownloadOrchestrator of entry point A (\<open>src/index.js\<close>)\<close>

text \<open>
  The options object \<open>downloadVideo\<close> builds before it touches the outside, statement
  by statement: the format string, the first choice of \<open>output\<close> from \<open>options.outputDir\<close>,
  the second from \<open>options.filename\<close>, the audio-only override.
\<close>

definition downloadVideo_options ::
  "world \<Rightarrow> video_info \<Rightarrow> js_string \<Rightarrow> js_string \<Rightarrow> options \<Rightarrow> download_options" where
  "downloadVideo_options w videoInfo folder selectedFormat opts =
     (let formatString =
            (if selectedFormat = js ''auto'' then
               (if truthy_number (quality opts) then
                  js ''bestvideo[height>=''
                    @ number_text w (case quality opts of Some q \<Rightarrow> q | None \<Rightarrow> NaN)
                    @ js '']+bestaudio/bestvideo+bestaudio/best''
                else js ''bestvideo+bestaudio/best'')
             else selectedFormat);
          d0 = no_download_options \<lparr> noPlaylist := Some True, format := Some formatString,
                 mergeOutputFormat := Some (js ''mp4''), writeThumbnail := Some True,
                 writeDescription := Some True, writeInfoJson := Some True \<rparr>;
          defaultOutputDir = path_join w [js ''/volume1/media/datas'', js ''youtubes'', folder];
          d1 = (if truthy_str (outputDir opts) then
                  d0 \<lparr> output_template := Some (path_join w [str_value (outputDir opts), js ''%(title)s.%(ext)s'']) \<rparr>
                else d0 \<lparr> output_template := Some (path_join w [defaultOutputDir, js ''video.%(ext)s'']) \<rparr>);
          d2 = (if truthy_str (filename opts) then
                  d1 \<lparr> output_template := Some (path_join w [defaultOutputDir, str_value (filename opts) @ js ''.%(ext)s'']) \<rparr>
                else
                  (let safeTitle = minimalSanitizeFilename (title videoInfo) in
                   d1 \<lparr> output_template := Some (path_join w [defaultOutputDir, safeTitle @ js ''.%(ext)s'']) \<rparr>))
      in if audio_only opts then
           d2 \<lparr> format := Some (js ''bestaudio[ext=m4a]/bestaudio''), extractAudio := Some True,
                audioFormat := Some (js ''mp3''), writeThumbnail := None, writeDescription := None \<rparr>
         else d2)"

text \<open>
  The whole of \<open>downloadVideo\<close>: the directory of the output is created when it is
  missing, the downloader is called once, and any error is thrown again as a download
  failure.
\<close>

definition downloadVideo_A ::
  "world \<Rightarrow> event list \<Rightarrow> js_string \<Rightarrow> video_info \<Rightarrow> js_string \<Rightarrow> js_string \<Rightarrow> options
     \<Rightarrow> event list \<times> (js_string + unit)" where
  "downloadVideo_A w tr url videoInfo folder selectedFormat opts =
     (let downloadOptions = downloadVideo_options w videoInfo folder selectedFormat opts;
          dir = path_dirname w
                  (replace_first (js ''%(ext)s'') (js ''mp4'')
                    (replace_first (js ''%(title)s'') (title videoInfo)
                      (str_value (output_template downloadOptions))))
      in case ensure_dir w tr dir of
           (tr1, Inl e) \<Rightarrow> (tr1, Inl (download_failed e))
         | (tr1, Inr _) \<Rightarrow>
             (case call_download w tr1 url downloadOptions of
                (tr2, Inl e) \<Rightarrow> (tr2, Inl (download_failed e))
              | (tr2, Inr _) \<Rightarrow> (tr2, Inr ())))"

section \<open>DownloadOrchestrator of entry point B (\<open>src/bin/index.js\<close>), the two-pass variant\<close>

definition outputDir_B :: "world \<Rightarrow> video_info \<Rightarrow> options \<Rightarrow> js_string" where
  "outputDir_B w videoInfo opts =
     (let safeTitle = minimalSanitizeFilename (title videoInfo) in
      if truthy_str (outputDir opts) then str_value (outputDir opts)
      else
        (let mediaFolder = js ''Z:'' @ [92] @ js ''media'';
             parent = (if truthy_str (parent_folder opts) then str_value (parent_folder opts)
                       else if truthy_str (parentFolder opts) then str_value (parentFolder opts)
                       else js '''')
         in if parent \<noteq> [] then path_join w [mediaFolder, parent, safeTitle]
            else path_join w [mediaFolder, safeTitle]))"

definition filename_B :: "video_info \<Rightarrow> options \<Rightarrow> js_string" where
  "filename_B videoInfo opts =
     (if truthy_str (filename opts) then str_value (filename opts)
      else minimalSanitizeFilename (title videoInfo))"

definition videoOptions :: "world \<Rightarrow> video_info \<Rightarrow> options \<Rightarrow> download_options" where
  "videoOptions w videoInfo opts =
     no_download_options \<lparr> noPlaylist := Some True,
       format := Some (js ''315+140/bestvideo+bestaudio/best''),
       mergeOutputFormat := Some (js ''mp4''), writeThumbnail := Some True,
       writeDescription := description opts, writeInfoJson := json opts,
       output_template := Some (path_join w [outputDir_B w videoInfo opts,
                                     filename_B videoInfo opts @ js ''.%(ext)s'']) \<rparr>"

definition audioOptions :: "world \<Rightarrow> video_info \<Rightarrow> options \<Rightarrow> download_options" where
  "audioOptions w videoInfo opts =
     no_download_options \<lparr> noPlaylist := Some True, format := Some (js ''bestaudio''),
       extractAudio := Some True, audioFormat := Some (js ''mp3''),
       audioQuality := Some (js ''0''),
       output_template := Some (path_join w [outputDir_B w videoInfo opts,
                                     filename_B videoInfo opts @ js ''.%(ext)s'']) \<rparr>"

definition backupAudioOptions :: "world \<Rightarrow> video_info \<Rightarrow> options \<Rightarrow> download_options" where
  "backupAudioOptions w videoInfo opts =
     (audioOptions w videoInfo opts) \<lparr> format := Some (js ''bestaudio/best'') \<rparr>"

definition downloadVideo_B ::
  "world \<Rightarrow> event list \<Rightarrow> js_string \<Rightarrow> video_info \<Rightarrow> options \<Rightarrow> event list \<times> (js_string + unit)" where
  "downloadVideo_B w tr url videoInfo opts =
     (case ensure_dir w tr (outputDir_B w videoInfo opts) of
        (tr1, Inl e) \<Rightarrow> (tr1, Inl (download_failed e))
      | (tr1, Inr _) \<Rightarrow>
          (case call_download w tr1 url (videoOptions w videoInfo opts) of
             (tr2, Inl e) \<Rightarrow> (tr2, Inl (download_failed e))
           | (tr2, Inr _) \<Rightarrow>
               (case call_download w tr2 url (audioOptions w videoInfo opts) of
                  (tr3, Inr _) \<Rightarrow> (tr3, Inr ())
                | (tr3, Inl e) \<Rightarrow>
                    (case call_download w tr3 url (backupAudioOptions w videoInfo opts) of
                       (tr4, Inl e') \<Rightarrow> (tr4, Inl (download_failed e'))
                     | (tr4, Inr _) \<Rightarrow> (tr4, Inr ())))))"

section \<open>The command line of entry point A (\<open>src/index.js\<close>)\<close>

text \<open>
  The option loop of \<open>main\<close>. A flag that takes a value reads \<open>args[++i]\<close>; the test
  \<open>args[i].startsWith('--')\<close> after the \<open>switch\<close> then looks at that value, and throws a
  \<open>TypeError\<close> when the flag was the last argument (\<open>None\<close> here). A value is never
  pushed onto \<open>remainingArgs\<close>, since \<open>skipNext\<close> is set.
\<close>

fun parse_args_A ::
  "world \<Rightarrow> js_string list \<Rightarrow> options \<Rightarrow> js_string list \<Rightarrow> (options \<times> js_string list) option" where
  "parse_args_A w [] opts remainingArgs = Some (opts, remainingArgs)"
| "parse_args_A w (a # rest) opts remainingArgs =
     (if a = js ''--folderName'' then
        (case rest of [] \<Rightarrow> None
         | v # rest' \<Rightarrow> parse_args_A w rest' (opts \<lparr> folderName := Some v \<rparr>) remainingArgs)
      else if a = js ''--parentFolder'' then
        (case rest of [] \<Rightarrow> None
         | v # rest' \<Rightarrow> parse_args_A w rest' (opts \<lparr> parentFolder := Some v \<rparr>) remainingArgs)
      else if a = js ''--output-dir'' then
        (case rest of [] \<Rightarrow> None
         | v # rest' \<Rightarrow> parse_args_A w rest' (opts \<lparr> outputDir := Some v \<rparr>) remainingArgs)
      else if a = js ''--filename'' then
        (case rest of [] \<Rightarrow> None
         | v # rest' \<Rightarrow> parse_args_A w rest' (opts \<lparr> filename := Some v \<rparr>) remainingArgs)
      else if a = js ''--audio-only'' then
        parse_args_A w rest (opts \<lparr> audio_only := True \<rparr>) remainingArgs
      else if a = js ''--quality'' then
        (case rest of [] \<Rightarrow> None
         | v # rest' \<Rightarrow> parse_args_A w rest' (opts \<lparr> quality := Some (parse_int w (Some v)) \<rparr>) remainingArgs)
      else if a = js ''--auto'' then
        parse_args_A w rest (opts \<lparr> auto := True \<rparr>) remainingArgs
      else if \<not> startsWith a (js ''--'') then
        parse_args_A w rest opts (remainingArgs @ [a])
      else parse_args_A w rest opts remainingArgs)"

text \<open>The body of the \<open>try\<close> of \<open>main\<close>, from the probe of the downloader on.\<close>

definition run_A :: "world \<Rightarrow> js_string \<Rightarrow> options \<Rightarrow> event list \<times> (js_string + unit)" where
  "run_A w url opts =
     (case checkYoutubeDl w [] of
        (tr1, False) \<Rightarrow> (tr1 @ [Print_error Downloader_missing], Inr ())
      | (tr1, True) \<Rightarrow>
          (case (if truthy_str (outputDir opts)
                 then ensure_dir w tr1 (str_value (outputDir opts))
                 else (tr1, Inr ())) of
             (tr2, Inl e) \<Rightarrow> (tr2, Inl e)
           | (tr2, Inr _) \<Rightarrow>
               (case getVideoInfo w tr2 url of
                  (tr3, Inl e) \<Rightarrow> (tr3, Inl e)
                | (tr3, Inr videoInfo) \<Rightarrow>
                    (let name = (if truthy_str (folderName opts) then str_value (folderName opts)
                                 else title videoInfo);
                         processedFolderName = replacePlaceholders (clock w tr3) name;
                         safeFolderName = sanitizeFolderName processedFolderName;
                         finalFolderName =
                           (if truthy_str (parentFolder opts)
                            then str_value (parentFolder opts) @ js ''/'' @ safeFolderName
                            else safeFolderName)
                     in case (if auto opts then (tr3, Inr (js ''auto''))
                              else selectFormat w tr3 (formats videoInfo)) of
                          (tr4, Inl e) \<Rightarrow> (tr4, Inl e)
                        | (tr4, Inr selectedFormat) \<Rightarrow>
                            downloadVideo_A w tr4 url videoInfo finalFolderName
                              selectedFormat opts))))"

text \<open>\<open>main\<close>: what the run does and how it ends, for the arguments after the script name.\<close>

definition main_A :: "world \<Rightarrow> js_string list \<Rightarrow> event list \<times> ending" where
  "main_A w args =
     (if js ''--help'' \<in> set args \<or> length args = 0 then ([Print_usage], Returned)
      else case parse_args_A w args no_options [] of
        None \<Rightarrow> ([], Uncaught)
      | Some (opts, remainingArgs) \<Rightarrow>
          (case remainingArgs of
             [] \<Rightarrow> ([Print_error Url_required, Print_usage], Returned)
           | url # _ \<Rightarrow>
               if \<not> js_includes url (js ''youtube.com'') \<and> \<not> js_includes url (js ''youtu.be'')
               then ([Print_error Url_invalid], Returned)
               else (case run_A w url opts of
                       (tr, Inr _) \<Rightarrow> (tr, Returned)
                     | (tr, Inl e) \<Rightarrow> (tr @ [Print_error (Fatal e)], Exited 1))))"

section \<open>The command line of entry point B (\<open>src/bin/index.js\<close>)\<close>

text \<open>
  \<open>optionsMap\<close>: a flag sets its key to the argument after its first occurrence, when
  there is one and it does not start with \<open>--\<close>.
\<close>

fun index_of :: "js_string list \<Rightarrow> js_string \<Rightarrow> nat option" where
  "index_of [] x = None"
| "index_of (a # rest) x = (if a = x then Some 0 else map_option Suc (index_of rest x))"

definition flag_value :: "js_string list \<Rightarrow> js_string \<Rightarrow> js_string option" where
  "flag_value args flag =
     (case index_of args flag of
        None \<Rightarrow> None
      | Some i \<Rightarrow>
          if i + 1 < length args \<and> \<not> startsWith (args ! (i + 1)) (js ''--'')
          then Some (args ! (i + 1)) else None)"

definition parse_args_B :: "js_string list \<Rightarrow> options" where
  "parse_args_B args =
     no_options \<lparr>
       description := Some (js ''--desc'' \<in> set args \<or> js ''--description'' \<in> set args),
       json := Some (js ''--json'' \<in> set args),
       parent_folder := flag_value args (js ''--parent-folder''),
       folder_name := flag_value args (js ''--folder-name''),
       outputDir := flag_value args (js ''--output-dir''),
       filename := flag_value args (js ''--filename'') \<rparr>"

text \<open>
  The URL is the first argument that does not start with \<open>--\<close> and does not follow an
  argument that does; \<open>prev\<close> is the argument before, if any.
\<close>

fun find_url :: "js_string option \<Rightarrow> js_string list \<Rightarrow> js_string option" where
  "find_url prev [] = None"
| "find_url prev (a # rest) =
     (if startsWith a (js ''--'') then find_url (Some a) rest
      else if (case prev of None \<Rightarrow> False | Some p \<Rightarrow> startsWith p (js ''--''))
           then find_url (Some a) rest
      else Some a)"

text \<open>The test \<open>/^[a-zA-Z0-9_-]{11}$/\<close> of a video identifier.\<close>

definition is_youtube_id :: "js_string \<Rightarrow> bool" where
  "is_youtube_id s = (length s = 11 \<and> list_all (\<lambda>c. is_word c \<or> unat c = 45) s)"

definition run_B :: "world \<Rightarrow> js_string \<Rightarrow> options \<Rightarrow> event list \<times> (js_string + unit)" where
  "run_B w url opts =
     (case getVideoInfo w [] url of
        (tr1, Inl e) \<Rightarrow> (tr1, Inl e)
      | (tr1, Inr videoInfo) \<Rightarrow> downloadVideo_B w tr1 url videoInfo opts)"

definition finish :: "event list \<times> (js_string + unit) \<Rightarrow> event list \<times> ending" where
  "finish r = (case r of (tr, Inr _) \<Rightarrow> (tr, Returned)
                       | (tr, Inl e) \<Rightarrow> (tr @ [Print_error (Fatal e)], Exited 1))"

definition main_B :: "world \<Rightarrow> js_string list \<Rightarrow> event list \<times> ending" where
  "main_B w args =
     (if js ''--help'' \<in> set args \<or> js ''-h'' \<in> set args \<or> length args = 0
      then ([Print_usage], Returned)
      else
        (let opts = parse_args_B args in
         case find_url None args of
           None \<Rightarrow> ([Print_error Url_or_id_required, Print_usage], Returned)
         | Some url \<Rightarrow>
             if url = [] then ([Print_error Url_or_id_required, Print_usage], Returned)
             else if \<not> js_includes url (js ''youtube.com'') \<and> \<not> js_includes url (js ''youtu.be'')
             then (if is_youtube_id url
                   then finish (run_B w (js ''https://www.youtube.com/watch?v='' @ url) opts)
                   else ([Print_error Url_or_id_invalid], Returned))
             else finish (run_B w url opts)))"

section \<open>The batch driver (\<open>src/bin/batch-download.js\<close>)\<close>







section \<open>A sample world\<close>

text \<open>
  A world for examples: paths are joined with a slash, only the file \<open>urls.txt\<close> exists,
  every directory can be made, the downloader fails or succeeds as the three flags say
  (for the video request, the first audio request and the relaxed audio request), and of
  the three lines of \<open>urls.txt\<close> the command of the second exits with status 1. In the
  second world the second line of the file holds a NUL character, and \<open>spawn\<close> throws for
  a command that holds one.
\<close>

definition sample_join :: "js_string list \<Rightarrow> js_string" where
  "sample_join parts = foldr (\<lambda>p acc. if acc = [] then p else p @ [47] @ acc) parts []"

definition sample_world :: "bool \<Rightarrow> bool \<Rightarrow> bool \<Rightarrow> world" where
  "sample_world video_ok audio_ok retry_ok =
     \<lparr> path_join = sample_join,
       path_dirname = (\<lambda>p. rev (tl (dropWhile (\<lambda>c. c \<noteq> 47) (rev p)))),
       clock = (\<lambda>tr. sample_now),
       probe_version = (\<lambda>tr. True),
       fetch_json = (\<lambda>tr url. Inr \<lparr> title = js ''a/b'', formats = spec_formats \<rparr>),
       run_download = (\<lambda>tr url d.
          if format d = Some (js ''bestaudio'') then (if audio_ok then None else Some (js ''no audio''))
          else if format d = Some (js ''bestaudio/best'') then (if retry_ok then None else Some (js ''no audio at all''))
          else (if video_ok then None else Some (js ''no video''))),
       exists_sync = (\<lambda>tr p. p = js ''urls.txt''),
       mkdir_sync = (\<lambda>tr p. None),
       ask_prompt = (\<lambda>tr choices. Inr (js ''auto'')),
       parse_int = (\<lambda>v. if v = Some (js ''1080'') then Num 1080 else NaN),
       big_number_text = (\<lambda>n. js ''1e+21''),
       run_spawn = (\<lambda>tr command. if length tr = 2 then Closed (Some 1) else Closed (Some 0)),
       read_lines = (\<lambda>p. ([js ''https://youtu.be/aaaaaaaaaaa'', js ''https://youtu.be/bbbbbbbbbbb'',
                             js ''https://youtu.be/ccccccccccc''], None)) \<rparr>"


definition sample_info :: video_info where
  "sample_info = \<lparr> title = js ''a/b'', formats = spec_formats \<rparr>"

section \<open>Reading a trace\<close>





section \<open>Properties of the sanitizers\<close>

lemma js_underscore: "js ''_'' = [95]"
  by (simp add: js_def)

lemma js_empty: "js '''' = []"
  by (simp add: js_def)

lemma substring_from_0: "substring s 0 n = take n s"
  by (simp add: substring_def Let_def min_def)

lemma replace_class_single: "replace_class P [r] s = map (\<lambda>c. if P c then r else c) s"
  by (induction s) auto

lemma replace_class_delete: "replace_class (\<lambda>c. \<not> P c) [] s = filter P s"
  by (induction s) auto

lemma collapse_runs_dropWhile:
  "collapse_runs True s = collapse_runs False (dropWhile is_space s)"
proof (induction s)
  case Nil
  show ?case by simp
next
  case (Cons c cs)
  show ?case
  proof (cases "is_space c")
    case True
    with Cons show ?thesis by simp
  next
    case False
    then show ?thesis by simp
  qed
qed

lemma replace_runs_collapse:
  "replace_runs is_space [95] s = collapse_runs False s"
proof (induction "length s" arbitrary: s rule: less_induct)
  case less
  show ?case
  proof (cases s)
    case Nil
    then show ?thesis by simp
  next
    case (Cons c cs)
    show ?thesis
    proof (cases "is_space c")
      case True
      have "length (dropWhile is_space cs) < length s"
        using Cons by (simp add: le_imp_less_Suc length_dropWhile_le)
      then have "replace_runs is_space [95] (dropWhile is_space cs)
                 = collapse_runs False (dropWhile is_space cs)"
        by (rule less)
      with True Cons show ?thesis
        by (simp add: collapse_runs_dropWhile)
    next
      case False
      have "replace_runs is_space [95] cs = collapse_runs False cs"
        using Cons by (intro less) simp
      with False Cons show ?thesis by simp
    qed
  qed
qed

lemma sanitizeFolderName_steps:
  "sanitizeFolderName s = step_d (step_c (step_b (step_a s)))"
  by (simp add: sanitizeFolderName_def step_a_def step_b_def step_c_def step_d_def
      js_underscore js_empty substring_from_0 replace_class_single replace_class_delete
      replace_runs_collapse)

lemma allowed_not_forbidden: "folder_allowed c \<Longrightarrow> \<not> is_forbidden c"
  unfolding folder_allowed_def is_forbidden_def is_word_def by arith

lemma allowed_not_space: "folder_allowed c \<Longrightarrow> \<not> is_space c"
  unfolding folder_allowed_def is_space_def is_word_def by arith

lemma collapse_runs_no_space:
  "list_all (\<lambda>c. \<not> is_space c) s \<Longrightarrow> collapse_runs b s = s"
  by (induction s arbitrary: b) auto

lemma sanitizeFolderName_fixpoint:
  assumes "list_all folder_allowed s" and "length s \<le> 100"
  shows "sanitizeFolderName s = s"
proof -
  have a: "step_a s = s"
    unfolding step_a_def using assms(1)
    by (induction s) (auto dest: allowed_not_forbidden)
  have "list_all (\<lambda>c. \<not> is_space c) s"
    using assms(1) by (induction s) (auto dest: allowed_not_space)
  then have b: "step_b s = s"
    by (simp add: step_b_def collapse_runs_no_space)
  have c: "step_c s = s"
    unfolding step_c_def using assms(1) by (induction s) auto
  show ?thesis
    using assms(2) by (simp add: sanitizeFolderName_steps a b c step_d_def)
qed

lemma sanitizeFolderName_allowed: "list_all folder_allowed (sanitizeFolderName s)"
proof -
  have "list_all folder_allowed (filter folder_allowed t)" for t
    by (induction t) auto
  then have "list_all folder_allowed (take 100 (filter folder_allowed t))" for t
    by (auto simp: list_all_iff dest: in_set_takeD)
  then show ?thesis
    by (simp add: sanitizeFolderName_steps step_c_def step_d_def)
qed

lemma sanitizeFolderName_length: "length (sanitizeFolderName s) \<le> 100"
  by (simp add: sanitizeFolderName_steps step_d_def)

text \<open>
  Claim C6. For every input string, \<open>sanitizeFolderName\<close> is the composition, in this
  order, of (a) replacing each forbidden character by an underscore, (b) collapsing each
  run of white space into one underscore, (c) deleting every character that is not a word
  character, a hyphen, an underscore or in the Korean ranges, and (d) cutting to 100 code
  units; so the result has at most 100 code units, all of them allowed, and the cut is
  applied to the sanitized string.
\<close>

theorem sanitizeFolderName_pipeline:
  "sanitizeFolderName s = step_d (step_c (step_b (step_a s)))
   \<and> length (sanitizeFolderName s) \<le> 100
   \<and> list_all folder_allowed (sanitizeFolderName s)"
  using sanitizeFolderName_steps sanitizeFolderName_length sanitizeFolderName_allowed
  by blast

theorem sanitizeFolderName_pipeline_witness:
  "sanitizeFolderName (js ''a b!?'') = step_d (step_c (step_b (step_a (js ''a b!?''))))
   \<and> length (sanitizeFolderName (js ''a b!?'')) \<le> 100
   \<and> list_all folder_allowed (sanitizeFolderName (js ''a b!?''))
   \<and> sanitizeFolderName (js ''a b!?'') = js ''a_b_''"
proof -
  have "step_d (step_c (step_b (step_a (js ''a b!?'')))) = js ''a_b_''"
    by (simp add: step_a_def step_b_def step_c_def step_d_def js_def is_forbidden_def
        is_space_def folder_allowed_def is_word_def)
  then show ?thesis
    using sanitizeFolderName_pipeline [of "js ''a b!?''"] by metis
qed

text \<open>
  Claim C10. \<open>sanitizeFolderName\<close> is idempotent: its result holds allowed characters
  only, none of which is forbidden or white space, and is at most 100 code units long, so
  a second pass changes nothing.
\<close>

theorem sanitizeFolderName_idempotent:
  "sanitizeFolderName (sanitizeFolderName s) = sanitizeFolderName s"
  by (rule sanitizeFolderName_fixpoint [OF sanitizeFolderName_allowed sanitizeFolderName_length])

theorem sanitizeFolderName_idempotent_witness:
  "sanitizeFolderName (sanitizeFolderName (js ''a b!?'')) = sanitizeFolderName (js ''a b!?'')"
  using sanitizeFolderName_idempotent [of "js ''a b!?''"] by simp

section \<open>Properties of the format catalog\<close>

lemma sort_by_Cons: "sort_by cmp (x # xs) = insert_by cmp x (sort_by cmp xs)"
  by (simp add: sort_by_def)

lemma sort_by_Nil: "sort_by cmp [] = []"
  by (simp add: sort_by_def)

lemma mset_insert_by: "mset (insert_by cmp x ys) = add_mset x (mset ys)"
  by (induction ys) auto

lemma mset_sort_by: "mset (sort_by cmp xs) = mset xs"
  by (induction xs) (auto simp: sort_by_Cons sort_by_Nil mset_insert_by)

lemma set_sort_by: "set (sort_by cmp xs) = set xs"
  using mset_sort_by [of cmp xs] by (metis set_mset_mset)

lemma sorted_insert_by:
  "sorted_wrt (\<lambda>a b. k b \<le> k a) ys \<Longrightarrow>
   sorted_wrt (\<lambda>a b. k b \<le> k a) (insert_by (\<lambda>a b. k b - k a) x ys)"
proof (induction ys)
  case Nil
  show ?case by simp
next
  case (Cons y ys)
  show ?case
  proof (cases "k y \<le> k x")
    case True
    with Cons.prems show ?thesis by auto
  next
    case False
    have "set (insert_by (\<lambda>a b. k b - k a) x ys) = insert x (set ys)"
      using mset_insert_by [of "\<lambda>a b. k b - k a" x ys] by (metis set_mset_add_mset_insert set_mset_mset)
    with False Cons show ?thesis by auto
  qed
qed

lemma sorted_sort_by:
  "sorted_wrt (\<lambda>a b. k b \<le> k a) (sort_by (\<lambda>a b. k b - k a) xs)"
  by (induction xs) (auto simp: sort_by_Cons sort_by_Nil sorted_insert_by)

lemma filter_insert_by:
  "filter (\<lambda>a. k a = v) (insert_by (\<lambda>a b. k b - k a) x ys) =
   (if k x = v then x # filter (\<lambda>a. k a = v) ys else filter (\<lambda>a. k a = v) ys)"
  by (induction ys) auto

lemma stable_sort_by:
  "filter (\<lambda>a. k a = v) (sort_by (\<lambda>a b. k b - k a) xs) = filter (\<lambda>a. k a = v) xs"
  by (induction xs) (auto simp: sort_by_Cons sort_by_Nil filter_insert_by)

lemma by_height_key: "by_height = (\<lambda>a b. or_zero (height b) - or_zero (height a))"
  by (simp add: by_height_def fun_eq_iff)

lemma by_abr_key: "by_abr = (\<lambda>a b. or_zero (abr b) - or_zero (abr a))"
  by (simp add: by_abr_def fun_eq_iff)

lemma first_elem_sorted:
  assumes "xs \<noteq> []"
  shows "\<exists>f. first_elem (sort_by by_height xs) = Some f \<and> f \<in> set xs
           \<and> (\<forall>g\<in>set xs. or_zero (height g) \<le> or_zero (height f))"
proof -
  let ?ys = "sort_by by_height xs"
  have s: "set ?ys = set xs" by (rule set_sort_by)
  with assms obtain f fs where ys: "?ys = f # fs" by (cases ?ys) auto
  have "sorted_wrt (\<lambda>a b. or_zero (height b) \<le> or_zero (height a)) ?ys"
    unfolding by_height_key by (rule sorted_sort_by)
  with ys have "\<forall>g\<in>set ?ys. or_zero (height g) \<le> or_zero (height f)" by auto
  moreover have "f \<in> set ?ys" using ys by simp
  ultimately show ?thesis using s ys by (auto simp: first_elem_def)
qed


lemma set_filter_sort_by: "set (sort_by cmp (filter P xs)) = {x \<in> set xs. P x}"
  by (simp add: set_sort_by)

lemma tie_formats_organized:
  "map format_id (videoAudio (organizeFormats tie_formats)) = [js ''c'', js ''e'', js ''a'']
   \<and> map format_id (videoOnly (organizeFormats tie_formats)) = [js ''f'']
   \<and> map format_id (audioOnly (organizeFormats tie_formats)) = [js ''g'', js ''b'', js ''d'']"
  by (simp add: organizeFormats_def tie_formats_def sample_format_def is_videoAudio_def
      is_videoOnly_def is_audioOnly_def truthy_num_def or_zero_def by_height_def by_abr_def
      sort_by_def js_def)

lemma spec_formats_categories:
  "filter is_videoAudio spec_formats = [sample_format ''1'' ''vp9'' ''aac'' (Some 1080) None]
   \<and> filter is_videoOnly spec_formats = [sample_format ''2'' ''vp9'' ''none'' (Some 2160) None]
   \<and> filter is_audioOnly spec_formats = [sample_format ''3'' ''none'' ''mp3'' None None]"
  by (simp add: spec_formats_def sample_format_def is_videoAudio_def is_videoOnly_def
      is_audioOnly_def truthy_num_def js_def)

lemma spec_formats_best:
  "selectBestFormat spec_formats = Some (sample_format ''1'' ''vp9'' ''aac'' (Some 1080) None)"
  by (simp add: selectBestFormat_def Let_def spec_formats_categories sort_by_def first_elem_def)

text \<open>
  Claim C4. For every list of descriptors, \<open>organizeFormats\<close> puts into
  \<open>videoAudio\<close> exactly the descriptors (with their multiplicity) whose video codec and
  audio codec both differ from \<open>"none"\<close> and whose resolution is present, sorted by
  descending resolution, descriptors of equal resolution keeping their order in the input;
  into \<open>videoOnly\<close> exactly those with a video codec other than \<open>"none"\<close>, the audio
  codec \<open>"none"\<close> and a resolution, sorted the same way; and into \<open>audioOnly\<close> exactly
  those with the video codec \<open>"none"\<close> and another audio codec, sorted by descending
  bitrate, a missing bitrate counting as 0. A resolution is present when the source's test
  \<open>f.height\<close> holds, that is when the height is a number other than 0.
\<close>

theorem organizeFormats_categories:
  "mset (videoAudio (organizeFormats fs)) =
     {#f \<in># mset fs. vcodec f \<noteq> Some (js ''none'') \<and> acodec f \<noteq> Some (js ''none'')
        \<and> truthy_num (height f)#}
   \<and> sorted_wrt (\<lambda>a b. or_zero (height b) \<le> or_zero (height a)) (videoAudio (organizeFormats fs))
   \<and> filter (\<lambda>f. or_zero (height f) = h) (videoAudio (organizeFormats fs)) =
       filter (\<lambda>f. or_zero (height f) = h) (filter is_videoAudio fs)
   \<and> mset (videoOnly (organizeFormats fs)) =
     {#f \<in># mset fs. vcodec f \<noteq> Some (js ''none'') \<and> acodec f = Some (js ''none'')
        \<and> truthy_num (height f)#}
   \<and> sorted_wrt (\<lambda>a b. or_zero (height b) \<le> or_zero (height a)) (videoOnly (organizeFormats fs))
   \<and> filter (\<lambda>f. or_zero (height f) = h) (videoOnly (organizeFormats fs)) =
       filter (\<lambda>f. or_zero (height f) = h) (filter is_videoOnly fs)
   \<and> mset (audioOnly (organizeFormats fs)) =
     {#f \<in># mset fs. vcodec f = Some (js ''none'') \<and> acodec f \<noteq> Some (js ''none'')#}
   \<and> sorted_wrt (\<lambda>a b. or_zero (abr b) \<le> or_zero (abr a)) (audioOnly (organizeFormats fs))
   \<and> filter (\<lambda>f. or_zero (abr f) = r) (audioOnly (organizeFormats fs)) =
       filter (\<lambda>f. or_zero (abr f) = r) (filter is_audioOnly fs)"
proof -
  have va: "is_videoAudio = (\<lambda>f. vcodec f \<noteq> Some (js ''none'') \<and> acodec f \<noteq> Some (js ''none'')
        \<and> truthy_num (height f))"
    by (simp add: is_videoAudio_def fun_eq_iff)
  have vo: "is_videoOnly = (\<lambda>f. vcodec f \<noteq> Some (js ''none'') \<and> acodec f = Some (js ''none'')
        \<and> truthy_num (height f))"
    by (simp add: is_videoOnly_def fun_eq_iff)
  have ao: "is_audioOnly = (\<lambda>f. vcodec f = Some (js ''none'') \<and> acodec f \<noteq> Some (js ''none''))"
    by (simp add: is_audioOnly_def fun_eq_iff)
  have m1: "mset (videoAudio (organizeFormats fs)) = filter_mset is_videoAudio (mset fs)"
    by (simp add: organizeFormats_def mset_sort_by)
  have m2: "mset (videoOnly (organizeFormats fs)) = filter_mset is_videoOnly (mset fs)"
    by (simp add: organizeFormats_def mset_sort_by)
  have m3: "mset (audioOnly (organizeFormats fs)) = filter_mset is_audioOnly (mset fs)"
    by (simp add: organizeFormats_def mset_sort_by)
  have s1: "sorted_wrt (\<lambda>a b. or_zero (height b) \<le> or_zero (height a)) (videoAudio (organizeFormats fs))"
    by (simp add: organizeFormats_def by_height_key sorted_sort_by)
  have s2: "sorted_wrt (\<lambda>a b. or_zero (height b) \<le> or_zero (height a)) (videoOnly (organizeFormats fs))"
    by (simp add: organizeFormats_def by_height_key sorted_sort_by)
  have s3: "sorted_wrt (\<lambda>a b. or_zero (abr b) \<le> or_zero (abr a)) (audioOnly (organizeFormats fs))"
    by (simp add: organizeFormats_def by_abr_key sorted_sort_by)
  have t1: "filter (\<lambda>f. or_zero (height f) = h) (videoAudio (organizeFormats fs)) =
       filter (\<lambda>f. or_zero (height f) = h) (filter is_videoAudio fs)"
    unfolding organizeFormats_def by_height_key by (simp only: organized.simps stable_sort_by)
  have t2: "filter (\<lambda>f. or_zero (height f) = h) (videoOnly (organizeFormats fs)) =
       filter (\<lambda>f. or_zero (height f) = h) (filter is_videoOnly fs)"
    unfolding organizeFormats_def by_height_key by (simp only: organized.simps stable_sort_by)
  have t3: "filter (\<lambda>f. or_zero (abr f) = r) (audioOnly (organizeFormats fs)) =
       filter (\<lambda>f. or_zero (abr f) = r) (filter is_audioOnly fs)"
    unfolding organizeFormats_def by_abr_key by (simp only: organized.simps stable_sort_by)
  show ?thesis
    using m1 m2 m3 s1 s2 s3 t1 t2 t3 unfolding va vo ao by blast
qed

theorem organizeFormats_categories_witness:
  "mset (videoAudio (organizeFormats tie_formats)) =
     {#f \<in># mset tie_formats. vcodec f \<noteq> Some (js ''none'') \<and> acodec f \<noteq> Some (js ''none'')
        \<and> truthy_num (height f)#}
   \<and> filter (\<lambda>f. or_zero (height f) = 720) (videoAudio (organizeFormats tie_formats)) =
       filter (\<lambda>f. or_zero (height f) = 720) (filter is_videoAudio tie_formats)
   \<and> map format_id (videoAudio (organizeFormats tie_formats)) = [js ''c'', js ''e'', js ''a'']
   \<and> map format_id (videoOnly (organizeFormats tie_formats)) = [js ''f'']
   \<and> map format_id (audioOnly (organizeFormats tie_formats)) = [js ''g'', js ''b'', js ''d'']"
  using organizeFormats_categories [of tie_formats 720 0] tie_formats_organized by blast

text \<open>
  Claim C3. For every list of descriptors, \<open>selectBestFormat\<close> returns an element of
  the combined category of greatest resolution when that category is not empty; otherwise
  an element of the video-only category of greatest resolution when that one is not empty;
  otherwise nothing. What it returns always has a video codec and a resolution, so it is
  never an audio-only descriptor, whatever else the list holds. As in \<open>organizeFormats\<close>,
  a resolution is present when the source's test \<open>f.height\<close> holds.
\<close>

theorem selectBestFormat_best:
  "(filter is_videoAudio fs \<noteq> [] \<longrightarrow>
      (\<exists>f. selectBestFormat fs = Some f \<and> f \<in> set (videoAudio (organizeFormats fs))
         \<and> (\<forall>g \<in> set (videoAudio (organizeFormats fs)). or_zero (height g) \<le> or_zero (height f))))
   \<and> (filter is_videoAudio fs = [] \<and> filter is_videoOnly fs \<noteq> [] \<longrightarrow>
      (\<exists>f. selectBestFormat fs = Some f \<and> f \<in> set (videoOnly (organizeFormats fs))
         \<and> (\<forall>g \<in> set (videoOnly (organizeFormats fs)). or_zero (height g) \<le> or_zero (height f))))
   \<and> (filter is_videoAudio fs = [] \<and> filter is_videoOnly fs = [] \<longrightarrow> selectBestFormat fs = None)
   \<and> (\<forall>f. selectBestFormat fs = Some f \<longrightarrow>
         vcodec f \<noteq> Some (js ''none'') \<and> truthy_num (height f) \<and> \<not> is_audioOnly f)"
proof -
  let ?va = "filter is_videoAudio fs" and ?vo = "filter is_videoOnly fs"
  have sva: "set (videoAudio (organizeFormats fs)) = set ?va"
    by (simp add: organizeFormats_def set_sort_by)
  have svo: "set (videoOnly (organizeFormats fs)) = set ?vo"
    by (simp add: organizeFormats_def set_sort_by)
  have c1: "\<exists>f. selectBestFormat fs = Some f \<and> f \<in> set ?va
         \<and> (\<forall>g \<in> set ?va. or_zero (height g) \<le> or_zero (height f))" if "?va \<noteq> []"
    using first_elem_sorted [OF that] that by (simp add: selectBestFormat_def Let_def)
  have c2: "\<exists>f. selectBestFormat fs = Some f \<and> f \<in> set ?vo
         \<and> (\<forall>g \<in> set ?vo. or_zero (height g) \<le> or_zero (height f))"
    if "?va = []" "?vo \<noteq> []"
    using first_elem_sorted [OF that(2)] that by (simp add: selectBestFormat_def Let_def)
  have c3: "selectBestFormat fs = None" if "?va = []" "?vo = []"
    using that by (simp add: selectBestFormat_def Let_def)
  have c4: "vcodec f \<noteq> Some (js ''none'') \<and> truthy_num (height f) \<and> \<not> is_audioOnly f"
    if "selectBestFormat fs = Some f" for f
  proof -
    have "f \<in> set ?va \<or> f \<in> set ?vo"
      using c1 c2 c3 that by (cases "?va = []"; cases "?vo = []") auto
    then show ?thesis
      by (auto simp: is_videoAudio_def is_videoOnly_def is_audioOnly_def)
  qed
  show ?thesis
    unfolding sva svo using c1 c2 c3 c4 by blast
qed

theorem selectBestFormat_best_witness:
  "filter is_videoAudio spec_formats \<noteq> []
   \<and> (\<exists>f. selectBestFormat spec_formats = Some f
         \<and> f \<in> set (videoAudio (organizeFormats spec_formats))
         \<and> (\<forall>g \<in> set (videoAudio (organizeFormats spec_formats)).
               or_zero (height g) \<le> or_zero (height f)))
   \<and> selectBestFormat spec_formats = Some (sample_format ''1'' ''vp9'' ''aac'' (Some 1080) None)
   \<and> selectBestFormat [] = None"
proof -
  have ne: "filter is_videoAudio spec_formats \<noteq> []"
    by (simp add: spec_formats_categories)
  have "selectBestFormat [] = None"
    using selectBestFormat_best [of "[]"] by simp
  with ne show ?thesis
    using selectBestFormat_best [of spec_formats] spec_formats_best by blast
qed

section \<open>Properties of the placeholder substitution\<close>

lemma replace_lit_Nil: "pat \<noteq> [] \<Longrightarrow> replace_lit pat rep [] = []"
  by (simp add: replace_lit.simps)

lemma replace_lit_match:
  "pat \<noteq> [] \<Longrightarrow> replace_lit pat rep (pat @ r) = rep @ replace_lit pat rep r"
  by (subst replace_lit.simps) simp

lemma replace_lit_skip:
  "pat \<noteq> [] \<Longrightarrow> \<not> prefix pat (c # cs) \<Longrightarrow>
   replace_lit pat rep (c # cs) = c # replace_lit pat rep cs"
  by (subst replace_lit.simps) simp

lemma token_at_Nil: "token_at [] s = None"
  by (simp add: token_at_def)

lemma token_at_Cons:
  "token_at ((t, v) # tbl) s = (if t \<noteq> [] \<and> prefix t s then Some (t, v) else token_at tbl s)"
  by (simp add: token_at_def)

lemma token_at_SomeD:
  "token_at tbl s = Some (t, v) \<Longrightarrow> (t, v) \<in> set tbl \<and> t \<noteq> [] \<and> prefix t s"
  by (induction tbl) (auto simp: token_at_Nil token_at_Cons split: if_splits)

lemma token_at_NoneD:
  "token_at tbl s = None \<Longrightarrow> (t, v) \<in> set tbl \<Longrightarrow> t \<noteq> [] \<Longrightarrow> \<not> prefix t s"
  by (induction tbl) (auto simp: token_at_Nil token_at_Cons split: if_splits)

lemma token_at_NoneI:
  "\<forall>e \<in> set tbl. \<not> prefix (fst e) s \<Longrightarrow> token_at tbl s = None"
  by (induction tbl) (auto simp: token_at_Nil token_at_Cons)

lemma substitute_Nil: "substitute tbl [] = []"
  by (simp add: substitute.simps)

lemma substitute_copy:
  "token_at tbl (c # cs) = None \<Longrightarrow> substitute tbl (c # cs) = c # substitute tbl cs"
  by (subst substitute.simps) simp

lemma substitute_token:
  "token_at tbl s = Some (t, v) \<Longrightarrow> substitute tbl s = v @ substitute tbl (drop (length t) s)"
  by (subst substitute.simps) (auto dest: token_at_SomeD)

lemma substitute_empty_table: "substitute [] s = s"
  by (induction s) (simp_all add: substitute_Nil substitute_copy token_at_Nil)

lemma value_char_not_brace: "value_char c \<Longrightarrow> c \<noteq> 123"
  by (auto simp: value_char_def)

lemma body_char_not_brace: "body_char c \<Longrightarrow> c \<noteq> 123"
  by (auto simp: body_char_def)

lemma body_not_value: "body_char c \<Longrightarrow> \<not> value_char c"
  unfolding body_char_def value_char_def by arith

lemma entry_okD:
  "entry_ok (t, v) \<Longrightarrow> \<exists>body. t = 123 # body \<and> list_all body_char body \<and> v \<noteq> [] \<and> list_all value_char v"
  by (cases t) (auto simp: entry_ok_def)

lemma substitute_values:
  assumes "list_all entry_ok tbl" and "list_all value_char v"
  shows "substitute tbl (v @ x) = v @ substitute tbl x"
  using assms(2)
proof (induction v)
  case Nil
  show ?case by simp
next
  case (Cons c v)
  then have c: "c \<noteq> 123" by (simp add: value_char_not_brace)
  have "\<not> prefix (fst e) (c # v @ x)" if "e \<in> set tbl" for e
  proof -
    from that assms(1) have "entry_ok (fst e, snd e)" by (simp add: list_all_iff)
    then obtain body where "fst e = 123 # body" using entry_okD by blast
    with c show ?thesis by simp
  qed
  then have "token_at tbl (c # v @ x) = None"
    by (intro token_at_NoneI) blast
  with Cons show ?case by (simp add: substitute_copy)
qed

lemma replace_lit_body:
  assumes "list_all body_char body"
  shows "replace_lit (123 # b1) v1 (body @ r) = body @ replace_lit (123 # b1) v1 r"
  using assms
proof (induction body)
  case Nil
  show ?case by simp
next
  case (Cons c body)
  then have "c \<noteq> 123" by (simp add: body_char_not_brace)
  then have "\<not> prefix (123 # b1) (c # body @ r)" by simp
  with Cons show ?case by (simp add: replace_lit_skip)
qed

lemma prefix_replace_lit:
  assumes "t1 \<noteq> []" and "v1 \<noteq> []" and "list_all value_char v1"
    and "list_all body_char body" and "prefix body (replace_lit t1 v1 cs)"
  shows "prefix body cs"
  using assms(4,5)
proof (induction body arbitrary: cs)
  case Nil
  show ?case by simp
next
  case (Cons b body)
  from Cons.prems(1) have b: "body_char b" and body: "list_all body_char body" by simp_all
  show ?case
  proof (cases cs)
    case Nil
    with Cons.prems(2) assms(1) show ?thesis by (simp add: replace_lit_Nil)
  next
    case (Cons d ds)
    show ?thesis
    proof (cases "prefix t1 cs")
      case True
      then obtain r where "cs = t1 @ r" by (auto simp: prefix_def)
      with Cons.prems(2) assms(1) have p: "prefix (b # body) (v1 @ replace_lit t1 v1 r)"
        by (simp add: replace_lit_match)
      from assms(2) obtain w ws where v1: "v1 = w # ws" by (cases v1) auto
      with p have "b = w" by simp
      with v1 assms(3) have "value_char b" by simp
      with b show ?thesis using body_not_value by blast
    next
      case False
      with Cons assms(1) have "replace_lit t1 v1 cs = d # replace_lit t1 v1 ds"
        by (simp add: replace_lit_skip)
      with Cons.prems(2) have "b = d" and "prefix body (replace_lit t1 v1 ds)" by simp_all
      with Cons.IH [OF body] Cons show ?thesis by simp
    qed
  qed
qed

lemma token_at_same_token:
  assumes "token_at tbl (t @ r) = Some (t, v)"
    and "\<And>t' v'. (t', v') \<in> set tbl \<Longrightarrow> prefix t t' \<Longrightarrow> t' = t"
  shows "token_at tbl (t @ y) = Some (t, v)"
  using assms
proof (induction tbl)
  case Nil
  then show ?case by (simp add: token_at_Nil)
next
  case (Cons e tbl)
  obtain a b where e: "e = (a, b)" by (cases e)
  show ?case
  proof (cases "a \<noteq> [] \<and> prefix a (t @ r)")
    case True
    with Cons.prems(1) e have "a = t" "b = v" by (simp_all add: token_at_Cons)
    with True e show ?thesis by (simp add: token_at_Cons)
  next
    case False
    with Cons.prems(1) e have rest: "token_at tbl (t @ r) = Some (t, v)"
      by (simp add: token_at_Cons)
    have "\<not> (a \<noteq> [] \<and> prefix a (t @ y))"
    proof
      assume h: "a \<noteq> [] \<and> prefix a (t @ y)"
      then have "prefix a t \<or> prefix t a"
        by (metis prefix_append prefix_same_cases prefixI)
      then show False
      proof
        assume "prefix a t"
        then have "prefix a (t @ r)" by (simp add: prefix_prefix)
        with False h show False by simp
      next
        assume "prefix t a"
        with Cons.prems(2) [of a b] e have "a = t" by simp
        with False h show False by simp
      qed
    qed
    moreover have "token_at tbl (t @ y) = Some (t, v)"
      using rest Cons.prems(2) by (intro Cons.IH) auto
    ultimately show ?thesis using e by (auto simp: token_at_Cons)
  qed
qed

lemma replace_then_substitute:
  assumes ok: "list_all entry_ok ((t1, v1) # rest)" and pf: "prefix_free ((t1, v1) # rest)"
  shows "substitute rest (replace_lit t1 v1 s) = substitute ((t1, v1) # rest) s"
proof (induction "length s" arbitrary: s rule: less_induct)
  case less
  from ok have e1: "entry_ok (t1, v1)" and okr: "list_all entry_ok rest" by simp_all
  from entry_okD [OF e1] obtain b1 where t1: "t1 = 123 # b1" and v1: "v1 \<noteq> []"
    and vc: "list_all value_char v1" by blast
  have t1ne: "t1 \<noteq> []" using t1 by simp
  show ?case
  proof (cases s)
    case Nil
    then show ?thesis by (simp add: replace_lit_Nil t1ne substitute_Nil)
  next
    case (Cons c cs)
    show ?thesis
    proof (cases "prefix t1 s")
      case True
      then obtain r where s: "s = t1 @ r" by (auto simp: prefix_def)
      have "length r < length s" using s t1ne by simp
      then have ih: "substitute rest (replace_lit t1 v1 r) = substitute ((t1, v1) # rest) r"
        by (rule less)
      have "token_at ((t1, v1) # rest) s = Some (t1, v1)"
        using True t1ne by (simp add: token_at_Cons)
      then have "substitute ((t1, v1) # rest) s = v1 @ substitute ((t1, v1) # rest) r"
        using s by (simp add: substitute_token)
      moreover have "substitute rest (replace_lit t1 v1 s) = v1 @ substitute rest (replace_lit t1 v1 r)"
        using s t1ne by (simp add: replace_lit_match substitute_values [OF okr vc])
      ultimately show ?thesis using ih by simp
    next
      case False
      have rl: "replace_lit t1 v1 s = c # replace_lit t1 v1 cs"
        using False Cons t1ne by (simp add: replace_lit_skip)
      have ih: "substitute rest (replace_lit t1 v1 cs) = substitute ((t1, v1) # rest) cs"
        using Cons by (intro less) simp
      have ta: "token_at ((t1, v1) # rest) s = token_at rest s"
        using False by (simp add: token_at_Cons)
      show ?thesis
      proof (cases "token_at rest s")
        case None
        have "\<not> prefix (fst e) (c # replace_lit t1 v1 cs)" if e: "e \<in> set rest" for e
        proof
          assume p: "prefix (fst e) (c # replace_lit t1 v1 cs)"
          from e okr have "entry_ok (fst e, snd e)" by (simp add: list_all_iff)
          from entry_okD [OF this] obtain body where t: "fst e = 123 # body"
            and bc: "list_all body_char body" by blast
          from p t have c: "c = 123" and "prefix body (replace_lit t1 v1 cs)" by simp_all
          then have "prefix body cs"
            using prefix_replace_lit [OF t1ne v1 vc bc] by blast
          with c t Cons have "prefix (fst e) s" by simp
          moreover have "(fst e, snd e) \<in> set rest" using e by simp
          moreover have "fst e \<noteq> []" using t by simp
          ultimately show False using token_at_NoneD [OF None] by blast
        qed
        then have "token_at rest (c # replace_lit t1 v1 cs) = None"
          by (intro token_at_NoneI) blast
        then have "substitute rest (replace_lit t1 v1 s) = c # substitute rest (replace_lit t1 v1 cs)"
          using rl by (simp add: substitute_copy)
        moreover have "substitute ((t1, v1) # rest) s = c # substitute ((t1, v1) # rest) cs"
          using ta None Cons by (simp add: substitute_copy)
        ultimately show ?thesis using ih by simp
      next
        case (Some e)
        obtain t v where e: "e = (t, v)" by (cases e)
        from Some e have tv: "token_at rest s = Some (t, v)" by simp
        from token_at_SomeD [OF tv] have mem: "(t, v) \<in> set rest" and tne: "t \<noteq> []"
          and pre: "prefix t s" by simp_all
        from pre obtain r where s: "s = t @ r" by (auto simp: prefix_def)
        from mem okr have "entry_ok (t, v)" by (simp add: list_all_iff)
        from entry_okD [OF this] obtain body where t: "t = 123 # body"
          and bc: "list_all body_char body" by blast
        have cs: "c = 123" "cs = body @ r" using s t Cons by simp_all
        have "replace_lit t1 v1 s = t @ replace_lit t1 v1 r"
          using rl cs t t1 replace_lit_body [OF bc, of b1 v1 r] by simp
        moreover have "token_at rest (t @ replace_lit t1 v1 r) = Some (t, v)"
        proof (rule token_at_same_token)
          show "token_at rest (t @ r) = Some (t, v)" using tv s by simp
        next
          fix t' v' assume "(t', v') \<in> set rest" and "prefix t t'"
          with pf mem show "t' = t"
            unfolding prefix_free_def list_all_iff by fastforce
        qed
        ultimately have "substitute rest (replace_lit t1 v1 s) =
            v @ substitute rest (replace_lit t1 v1 r)"
          by (simp add: substitute_token)
        moreover have "substitute ((t1, v1) # rest) s = v @ substitute ((t1, v1) # rest) r"
          using ta tv s by (simp add: substitute_token)
        moreover have "substitute rest (replace_lit t1 v1 r) = substitute ((t1, v1) # rest) r"
          using s tne by (intro less) simp
        ultimately show ?thesis by simp
      qed
    qed
  qed
qed

lemma prefix_free_tail: "prefix_free (e # tbl) \<Longrightarrow> prefix_free tbl"
  by (auto simp: prefix_free_def list_all_iff)

lemma replace_each_substitute:
  "table_ok tbl \<Longrightarrow> replace_each tbl s = substitute tbl s"
proof (induction tbl arbitrary: s)
  case Nil
  show ?case by (simp add: replace_each_def substitute_empty_table)
next
  case (Cons e tbl)
  obtain t v where e: "e = (t, v)" by (cases e)
  from Cons.prems have ok: "list_all entry_ok ((t, v) # tbl)" and pf: "prefix_free ((t, v) # tbl)"
    by (simp_all add: table_ok_def e)
  then have "table_ok tbl"
    using prefix_free_tail by (auto simp: table_ok_def)
  then have "replace_each tbl (replace_lit t v s) = substitute tbl (replace_lit t v s)"
    by (rule Cons.IH)
  moreover have "replace_each (e # tbl) s = replace_each tbl (replace_lit t v s)"
    by (simp add: replace_each_def e)
  ultimately show ?case
    using replace_then_substitute [OF ok pf] e by simp
qed

lemma digit_value_char: "k < 10 \<Longrightarrow> value_char (of_nat (48 + k))"
  by (simp add: value_char_def unat_of_nat del: of_nat_add)

lemma digits_value: "list_all value_char (digits n) \<and> digits n \<noteq> []"
proof (induction n rule: digits.induct)
  case (1 n)
  show ?case
  proof (cases "n < 10")
    case True
    then show ?thesis
      by (subst (1 2) digits.simps) (simp add: digit_value_char del: of_nat_add)
  next
    case False
    with 1 show ?thesis
      by (subst (1 2) digits.simps) (simp add: digit_value_char del: of_nat_add)
  qed
qed

lemma number_to_string_value:
  "list_all value_char (number_to_string i) \<and> number_to_string i \<noteq> []"
  using digits_value by (simp add: number_to_string_def value_char_def)

lemma slice_last_value:
  assumes "list_all value_char s \<and> s \<noteq> []"
  shows "list_all value_char (slice_last s 2) \<and> slice_last s 2 \<noteq> []"
proof -
  from assms have "0 < length s" by simp
  then have "length s - 2 < length s" by arith
  then have "slice_last s 2 \<noteq> []" by (simp add: slice_last_def)
  moreover have "list_all value_char (slice_last s 2)"
    using assms by (auto simp: slice_last_def list_all_iff dest: in_set_dropD)
  ultimately show ?thesis by simp
qed

lemma padStart_value:
  "list_all value_char s \<and> s \<noteq> [] \<Longrightarrow> list_all value_char (padStart s n 48) \<and> padStart s n 48 \<noteq> []"
  by (auto simp: padStart_def list_all_iff value_char_def)

lemma date_time_values:
  "list_all (\<lambda>v. list_all value_char v \<and> v \<noteq> [])
     [dt_fullTime (getCurrentDateTime now), dt_date (getCurrentDateTime now),
      dt_year (getCurrentDateTime now), dt_y (getCurrentDateTime now),
      dt_month (getCurrentDateTime now), dt_m (getCurrentDateTime now),
      dt_day (getCurrentDateTime now), dt_d (getCurrentDateTime now),
      dt_time (getCurrentDateTime now), dt_hour (getCurrentDateTime now),
      dt_h (getCurrentDateTime now), dt_minute (getCurrentDateTime now),
      dt_min (getCurrentDateTime now), dt_second (getCurrentDateTime now),
      dt_sec (getCurrentDateTime now)]"
proof -
  have y: "list_all value_char (slice_last (number_to_string i) 2) \<and> slice_last (number_to_string i) 2 \<noteq> []" for i
    by (rule slice_last_value [OF number_to_string_value])
  have p: "list_all value_char (padStart (number_to_string i) 2 48) \<and> padStart (number_to_string i) 2 48 \<noteq> []" for i
    by (rule padStart_value [OF number_to_string_value])
  have u: "list_all value_char (js ''_'')" by (simp add: js_def value_char_def)
  show ?thesis
    unfolding getCurrentDateTime_def Let_def
    using y p u by simp
qed

lemma placeholder_tokens_ok:
  "list_all (\<lambda>t. t \<noteq> [] \<and> hd t = 123 \<and> list_all body_char (tl t))
     (map fst (placeholder_table dt))"
  by (simp add: placeholder_table_def js_def body_char_def)

lemma placeholder_prefix_free: "prefix_free (placeholder_table dt)"
  by (simp add: prefix_free_def placeholder_table_def js_def)

lemma placeholder_table_ok: "table_ok (placeholder_table (getCurrentDateTime now))"
proof -
  have "list_all entry_ok (placeholder_table (getCurrentDateTime now))"
    using date_time_values [of now] placeholder_tokens_ok [of "getCurrentDateTime now"]
    by (simp add: placeholder_table_def entry_ok_def)
  then show ?thesis
    by (simp add: table_ok_def placeholder_prefix_free)
qed

lemma replacePlaceholders_fold:
  "replacePlaceholders now s = replace_each (placeholder_table (getCurrentDateTime now)) s"
  by (simp add: replacePlaceholders_def replace_each_def placeholder_table_def Let_def)

lemma substitute_no_tokens:
  "\<forall>e \<in> set tbl. \<not> js_includes s (fst e) \<Longrightarrow> substitute tbl s = s"
proof (induction s)
  case Nil
  show ?case by (simp add: substitute_Nil)
next
  case (Cons c cs)
  then have "token_at tbl (c # cs) = None"
    by (intro token_at_NoneI) simp
  moreover have "substitute tbl cs = cs"
    using Cons by simp
  ultimately show ?case by (simp add: substitute_copy)
qed

lemma sample_month: "replacePlaceholders sample_now (js ''{month}-{m}'') = js ''03-03''"
  by code_simp

lemma sample_no_tokens:
  "\<forall>t \<in> set (map fst (placeholder_table dt)). \<not> js_includes (js ''a{foo}b'') t"
  by (simp add: placeholder_table_def js_def)

text \<open>
  Claim C5. For every template and every reading of the clock, \<open>replacePlaceholders\<close>
  replaces every occurrence of each of the fifteen recognized tokens by its field of the
  date-time context and copies all other text, unrecognized bracketed tokens included: the
  fifteen replacements made one after the other give what one pass over the template
  gives. A template that holds no recognized token is returned unchanged, and with the
  month 03 the template \<open>{month}-{m}\<close> gives \<open>03-03\<close>.
\<close>

theorem replacePlaceholders_substitutes:
  "replacePlaceholders now template =
     substitute (placeholder_table (getCurrentDateTime now)) template
   \<and> ((\<forall>t \<in> set (map fst (placeholder_table (getCurrentDateTime now))).
          \<not> js_includes template t) \<longrightarrow>
        replacePlaceholders now template = template)"
proof -
  have eq: "replacePlaceholders now template =
     substitute (placeholder_table (getCurrentDateTime now)) template"
    by (simp add: replacePlaceholders_fold replace_each_substitute placeholder_table_ok)
  moreover have "replacePlaceholders now template = template"
    if "\<forall>t \<in> set (map fst (placeholder_table (getCurrentDateTime now))).
          \<not> js_includes template t"
    using that eq by (simp add: substitute_no_tokens)
  ultimately show ?thesis by blast
qed

theorem replacePlaceholders_substitutes_witness:
  "replacePlaceholders sample_now (js ''{month}-{m}'') =
     substitute (placeholder_table (getCurrentDateTime sample_now)) (js ''{month}-{m}'')
   \<and> replacePlaceholders sample_now (js ''{month}-{m}'') = js ''03-03''
   \<and> replacePlaceholders sample_now (js ''a{foo}b'') = js ''a{foo}b''"
  using replacePlaceholders_substitutes [of sample_now "js ''{month}-{m}''"]
    replacePlaceholders_substitutes [of sample_now "js ''a{foo}b''"]
    sample_month sample_no_tokens [of "getCurrentDateTime sample_now"]
  by blast

section \<open>Properties of the request of entry point A\<close>

lemma number_1080: "number_to_string 1080 = js ''1080''"
  by code_simp

lemma number_text_1080: "number_text w (Num 1080) = js ''1080''"
  by (simp add: number_text_def number_1080)

text \<open>
  Claim C7. In \<open>downloadVideo\<close> of entry point A, for every selection and every options
  object: with the selection \<open>auto\<close> the format string is
  \<open>bestvideo[height>=Q]+bestaudio/bestvideo+bestaudio/best\<close> when a quality is configured
  (a number other than 0 and \<open>NaN\<close>), \<open>Q\<close> being that number as JavaScript prints it,
  which for a safe integer is its decimal digits, and \<open>bestvideo+bestaudio/best\<close>
  otherwise; any other
  selection is handed on unchanged; and with \<open>options.audioOnly\<close> the format is the
  audio-extraction selector whatever was chosen before, audio extraction to mp3 is asked
  for, and the thumbnail and description requests are removed, which are otherwise set.
\<close>

theorem downloadVideo_format:
  "(\<not> audio_only opts \<and> selectedFormat = js ''auto'' \<and> quality opts = Some q
      \<and> truthy_number (Some q) \<longrightarrow>
      format (downloadVideo_options w videoInfo folder selectedFormat opts) =
        Some (js ''bestvideo[height>='' @ number_text w q
              @ js '']+bestaudio/bestvideo+bestaudio/best''))
   \<and> (\<not> audio_only opts \<and> selectedFormat = js ''auto'' \<and> quality opts = Some (Num n)
      \<and> n \<noteq> 0 \<and> \<bar>n\<bar> \<le> 9007199254740991 \<longrightarrow>
      format (downloadVideo_options w videoInfo folder selectedFormat opts) =
        Some (js ''bestvideo[height>='' @ number_to_string n
              @ js '']+bestaudio/bestvideo+bestaudio/best''))
   \<and> (\<not> audio_only opts \<and> selectedFormat = js ''auto'' \<and> \<not> truthy_number (quality opts) \<longrightarrow>
      format (downloadVideo_options w videoInfo folder selectedFormat opts) =
        Some (js ''bestvideo+bestaudio/best''))
   \<and> (\<not> audio_only opts \<and> selectedFormat \<noteq> js ''auto'' \<longrightarrow>
      format (downloadVideo_options w videoInfo folder selectedFormat opts) = Some selectedFormat)
   \<and> (\<not> audio_only opts \<longrightarrow>
      writeThumbnail (downloadVideo_options w videoInfo folder selectedFormat opts) = Some True
      \<and> writeDescription (downloadVideo_options w videoInfo folder selectedFormat opts) = Some True)
   \<and> (audio_only opts \<longrightarrow>
      format (downloadVideo_options w videoInfo folder selectedFormat opts) =
        Some (js ''bestaudio[ext=m4a]/bestaudio'')
      \<and> extractAudio (downloadVideo_options w videoInfo folder selectedFormat opts) = Some True
      \<and> audioFormat (downloadVideo_options w videoInfo folder selectedFormat opts) = Some (js ''mp3'')
      \<and> writeThumbnail (downloadVideo_options w videoInfo folder selectedFormat opts) = None
      \<and> writeDescription (downloadVideo_options w videoInfo folder selectedFormat opts) = None)"
  by (simp add: downloadVideo_options_def Let_def no_download_options_def number_text_def
      truthy_number_def)

theorem downloadVideo_format_witness:
  "format (downloadVideo_options (sample_world True True True) sample_info (js ''clip'') (js ''auto'')
      (no_options \<lparr> quality := Some (Num 1080) \<rparr>))
     = Some (js ''bestvideo[height>=1080]+bestaudio/bestvideo+bestaudio/best'')
   \<and> format (downloadVideo_options (sample_world True True True) sample_info (js ''clip'') (js ''auto'')
      no_options) = Some (js ''bestvideo+bestaudio/best'')
   \<and> format (downloadVideo_options (sample_world True True True) sample_info (js ''clip'') (js ''137'')
      no_options) = Some (js ''137'')
   \<and> format (downloadVideo_options (sample_world True True True) sample_info (js ''clip'') (js ''137'')
      (no_options \<lparr> audio_only := True \<rparr>)) = Some (js ''bestaudio[ext=m4a]/bestaudio'')
   \<and> writeThumbnail (downloadVideo_options (sample_world True True True) sample_info (js ''clip'')
      (js ''137'') (no_options \<lparr> audio_only := True \<rparr>)) = None
   \<and> writeDescription (downloadVideo_options (sample_world True True True) sample_info (js ''clip'')
      (js ''137'') (no_options \<lparr> audio_only := True \<rparr>)) = None"
proof -
  have ne: "js ''137'' \<noteq> js ''auto''" by (simp add: js_def)
  have a: "\<not> audio_only no_options" "\<not> audio_only (no_options \<lparr> quality := Some (Num 1080) \<rparr>)"
    "audio_only (no_options \<lparr> audio_only := True \<rparr>)"
    "\<not> truthy_number (quality no_options)"
    "quality (no_options \<lparr> quality := Some (Num 1080) \<rparr>) = Some (Num 1080)"
    "truthy_number (Some (Num 1080))"
    by (simp_all add: no_options_def truthy_number_def)
  have "js ''bestvideo[height>='' @ number_text (sample_world True True True) (Num 1080)
          @ js '']+bestaudio/bestvideo+bestaudio/best''
        = js ''bestvideo[height>=1080]+bestaudio/bestvideo+bestaudio/best''"
    by (simp add: number_text_1080 js_def)
  then show ?thesis
    using ne a
      downloadVideo_format [where opts = "no_options \<lparr> quality := Some (Num 1080) \<rparr>"
        and selectedFormat = "js ''auto''" and q = "Num 1080" and n = 1080
        and w = "sample_world True True True" and videoInfo = sample_info and folder = "js ''clip''"]
      downloadVideo_format [where opts = no_options
        and selectedFormat = "js ''auto''" and q = NaN and n = 0
        and w = "sample_world True True True" and videoInfo = sample_info and folder = "js ''clip''"]
      downloadVideo_format [where opts = no_options
        and selectedFormat = "js ''137''" and q = NaN and n = 0
        and w = "sample_world True True True" and videoInfo = sample_info and folder = "js ''clip''"]
      downloadVideo_format [where opts = "no_options \<lparr> audio_only := True \<rparr>"
        and selectedFormat = "js ''137''" and q = NaN and n = 0
        and w = "sample_world True True True" and videoInfo = sample_info and folder = "js ''clip''"]
    by simp
qed

text \<open>
  Claim C1, as the code has it. The output path of entry point A's \<open>downloadVideo\<close> is
  always the default directory \<open>/volume1/media/datas/youtubes/<folder>\<close> joined with the
  file name, which is \<open>options.filename\<close> when set and the minimally sanitized title
  otherwise: the assignment made from \<open>options.outputDir\<close> is overwritten by the file-name
  step, so the directory asked for is never used. In the sample world, with
  \<open>--output-dir ./videos\<close>, the folder \<open>clip\<close> and the title \<open>a/b\<close>, the path is
  \<open>/volume1/media/datas/youtubes/clip/a_b.%(ext)s\<close>.
\<close>

theorem downloadVideo_output:
  "output_template (downloadVideo_options w videoInfo folder selectedFormat opts) =
     Some (path_join w
            [path_join w [js ''/volume1/media/datas'', js ''youtubes'', folder],
             (if truthy_str (filename opts) then str_value (filename opts)
              else minimalSanitizeFilename (title videoInfo)) @ js ''.%(ext)s''])"
  by (simp add: downloadVideo_options_def Let_def)

theorem downloadVideo_output_witness:
  "output_template (downloadVideo_options (sample_world True True True) sample_info (js ''clip'')
      (js ''auto'') (no_options \<lparr> outputDir := Some (js ''./videos'') \<rparr>))
     = Some (js ''/volume1/media/datas/youtubes/clip/a_b.%(ext)s'')"
proof -
  have "minimalSanitizeFilename (title sample_info) = js ''a_b''"
    by (simp add: minimalSanitizeFilename_def sample_info_def js_def is_forbidden_def)
  moreover have "\<not> truthy_str (filename (no_options \<lparr> outputDir := Some (js ''./videos'') \<rparr>))"
    by (simp add: no_options_def truthy_str_def)
  moreover have "path_join (sample_world True True True) = sample_join"
    by (simp add: sample_world_def)
  moreover have "sample_join [sample_join [js ''/volume1/media/datas'', js ''youtubes'', js ''clip''],
      js ''a_b'' @ js ''.%(ext)s''] = js ''/volume1/media/datas/youtubes/clip/a_b.%(ext)s''"
    by (simp add: sample_join_def js_def)
  ultimately show ?thesis
    using downloadVideo_output [of "sample_world True True True" sample_info "js ''clip''"
        "js ''auto''" "no_options \<lparr> outputDir := Some (js ''./videos'') \<rparr>"]
    by simp
qed

section \<open>Properties of the runs\<close>























section \<open>Properties of the batch driver\<close>










section \<open>Properties of the command lines\<close>

text \<open>
  Claim C9, amended. Entry point B prints the usage text and returns, doing nothing else,
  when its arguments contain \<open>--help\<close> or \<open>-h\<close> or are empty; entry point A does so when
  its arguments contain \<open>--help\<close> or are empty.
\<close>

theorem help_prints_usage:
  "(js ''--help'' \<in> set args \<or> args = [] \<longrightarrow> main_A w args = ([Print_usage], Returned))
   \<and> (js ''--help'' \<in> set args \<or> js ''-h'' \<in> set args \<or> args = [] \<longrightarrow>
        main_B w args = ([Print_usage], Returned))"
  by (simp add: main_A_def main_B_def)

theorem help_prints_usage_witness:
  "main_A (sample_world True True True) [js ''https://youtu.be/aaaaaaaaaaa'', js ''--help'']
     = ([Print_usage], Returned)
   \<and> main_A (sample_world True True True) [] = ([Print_usage], Returned)
   \<and> main_B (sample_world True True True) [js ''-h''] = ([Print_usage], Returned)"
  using help_prints_usage [of "[js ''https://youtu.be/aaaaaaaaaaa'', js ''--help'']" "sample_world True True True"]
    help_prints_usage [of "[]" "sample_world True True True"]
    help_prints_usage [of "[js ''-h'']" "sample_world True True True"]
  by simp

text \<open>
  Claim C9 as stated fails for entry point A, which knows no \<open>-h\<close>: with the single
  argument \<open>-h\<close> it takes \<open>-h\<close> for the URL, reports an invalid URL and prints no usage
  text.
\<close>

theorem help_short_flag_counterexample:
  "main_A (sample_world True True True) [js ''-h''] = ([Print_error Url_invalid], Returned)"
  by (simp add: main_A_def no_options_def startsWith_def js_def)

end
